theory Spec2Isabelle
  imports Complex_Main "HOL-Library.AList" "HOL-Library.Sublist"
begin

section \<open>The Crates.io backend of Perceval: data model\<close>

text \<open>
  The development follows \<^verbatim>\<open>perceval/backends/mozilla/crates.py\<close>: the class
  \<^verbatim>\<open>Crates\<close> (the backend) and the class \<^verbatim>\<open>CratesClient\<close> (its HTTP client).
  Calls of the logger have no effect on what the functions return, yield or raise, and are
  left out.

  Values decoded from JSON are Python objects. JSON numbers are Python integers here (the
  registry's counts and identifiers; a document with a fractional number is outside the
  model); a Python \<^verbatim>\<open>dict\<close> is an association list, in insertion order, read at the
  first entry of a key.
\<close>

datatype json =
    JNull
  | JBool bool
  | JInt int
  | JStr string
  | JArr "json list"
  | JObj "(string \<times> json) list"

text \<open>The exceptions that can travel through the backend.\<close>

datatype error =
    HTTPError string
  | ConnectionError
  | JSONDecodeError
  | KeyError string
  | TypeError
  | InvalidDateError
  | OtherError string

text \<open>
  A timezone-aware \<^verbatim>\<open>datetime\<close>: Python orders aware datetimes, and computes their
  \<^verbatim>\<open>timestamp()\<close>, from the instant alone, here in microseconds since the epoch.
\<close>

datatype datetime = Datetime (instant: int)

text \<open>What a caller may pass as \<^verbatim>\<open>from_date\<close>.\<close>

datatype pyval = PyNone | PyDatetime datetime | PyJson json

text \<open>What the metadata functions return: a \<^verbatim>\<open>str\<close> or a \<^verbatim>\<open>float\<close>.\<close>

datatype 'f pyres = PyStr string | PyFloat 'f

type_synonym request = "string \<times> (string \<times> json) list option"

type_synonym 'a io = "request list \<times> (error + 'a)"

text \<open>
  The collaborators the module imports: \<^verbatim>\<open>urijoin\<close>, \<^verbatim>\<open>str_to_datetime\<close>,
  \<^verbatim>\<open>datetime_to_utc\<close> (grimoirelab_toolkit), \<^verbatim>\<open>json.loads\<close>, the text of the response of
  \<^verbatim>\<open>HttpClient.fetch\<close>, \<^verbatim>\<open>DEFAULT_DATETIME\<close> (perceval.utils), and Python's
  \<^verbatim>\<open>datetime.timestamp\<close> and \<^verbatim>\<open>str\<close> on floats, on decoded values and on datetimes.
  The type \<open>'f\<close> stands for Python's floats. The transport answers a request by its URL
  and payload; every request the backend sends is recorded in the order in which it is
  sent.
\<close>

record 'f collaborators =
  urijoin :: "json list \<Rightarrow> string"
  http_fetch :: "string \<Rightarrow> (string \<times> json) list option \<Rightarrow> error + string"
  json_loads :: "string \<Rightarrow> error + json"
  str_to_datetime :: "json \<Rightarrow> error + datetime"
  datetime_to_utc :: "pyval \<Rightarrow> error + datetime"
  timestamp :: "datetime \<Rightarrow> 'f"
  str_float :: "'f \<Rightarrow> string"
  py_str :: "json \<Rightarrow> string"
  str_datetime :: "datetime \<Rightarrow> string"
  DEFAULT_DATETIME :: datetime

text \<open>
  What a generator did while its caller asked for items: the requests it sent, the items
  it yielded, and how it stands at the end. It has returned, it has raised, or it is
  still suspended because the caller stopped asking.
\<close>

datatype status = Returned | Raised error | Suspended

record 'a run =
  trace :: "request list"
  yielded :: "'a list"
  outcome :: status

datatype ('a, 's) gen_step = Yield 'a 's | Stop

section \<open>Python operations on decoded values\<close>

text \<open>\<^verbatim>\<open>obj[key]\<close> with a string key.\<close>

fun py_getitem :: "json \<Rightarrow> string \<Rightarrow> error + json" where
  "py_getitem (JObj kvs) k = (case map_of kvs k of None \<Rightarrow> Inl (KeyError k) | Some v \<Rightarrow> Inr v)"
| "py_getitem _ k = Inl TypeError"

text \<open>\<^verbatim>\<open>obj[key] = value\<close> with a string key.\<close>

fun py_setitem :: "json \<Rightarrow> string \<Rightarrow> json \<Rightarrow> error + json" where
  "py_setitem (JObj kvs) k v = Inr (JObj (AList.update k v kvs))"
| "py_setitem _ k v = Inl TypeError"

text \<open>\<^verbatim>\<open>len(obj)\<close>.\<close>

fun py_len :: "json \<Rightarrow> error + int" where
  "py_len (JArr xs) = Inr (int (length xs))"
| "py_len (JObj kvs) = Inr (int (length (remdups (map fst kvs))))"
| "py_len (JStr s) = Inr (int (length s))"
| "py_len _ = Inl TypeError"

text \<open>The items of \<^verbatim>\<open>for x in obj\<close>.\<close>

fun py_iter :: "json \<Rightarrow> error + json list" where
  "py_iter (JArr xs) = Inr xs"
| "py_iter (JObj kvs) = Inr (map JStr (remdups (map fst kvs)))"
| "py_iter (JStr s) = Inr (map (\<lambda>c. JStr [c]) s)"
| "py_iter _ = Inl TypeError"

text \<open>Truth value of an object, as \<^verbatim>\<open>not obj\<close> reads it.\<close>

fun py_truthy :: "json \<Rightarrow> bool" where
  "py_truthy JNull = False"
| "py_truthy (JBool b) = b"
| "py_truthy (JInt n) = (n \<noteq> 0)"
| "py_truthy (JStr s) = (s \<noteq> [])"
| "py_truthy (JArr xs) = (xs \<noteq> [])"
| "py_truthy (JObj kvs) = (kvs \<noteq> [])"

text \<open>\<^verbatim>\<open>n >= obj\<close> for an integer \<^verbatim>\<open>n\<close>.\<close>

fun py_ge :: "int \<Rightarrow> json \<Rightarrow> error + bool" where
  "py_ge n (JInt t) = Inr (n \<ge> t)"
| "py_ge n (JBool b) = Inr (n \<ge> (if b then 1 else 0))"
| "py_ge n _ = Inl TypeError"

fun pyval_truthy :: "pyval \<Rightarrow> bool" where
  "pyval_truthy PyNone = False"
| "pyval_truthy (PyDatetime d) = True"
| "pyval_truthy (PyJson v) = py_truthy v"

section \<open>Sequencing calls that send requests and may raise\<close>

definition io_return :: "'a \<Rightarrow> 'a io" where
  "io_return x = ([], Inr x)"

definition io_lift :: "error + 'a \<Rightarrow> 'a io" where
  "io_lift r = ([], r)"

fun io_bind :: "'a io \<Rightarrow> ('a \<Rightarrow> 'b io) \<Rightarrow> 'b io" where
  "io_bind (tr, Inl e) f = (tr, Inl e)"
| "io_bind (tr, Inr x) f = (tr @ fst (f x), snd (f x))"

definition run_prepend :: "request list \<Rightarrow> 'a list \<Rightarrow> 'a run \<Rightarrow> 'a run" where
  "run_prepend tr ys r = \<lparr>trace = tr @ trace r, yielded = ys @ yielded r, outcome = outcome r\<rparr>"

section \<open>Constants of the module\<close>

definition CRATES_URL :: string where
  "CRATES_URL = ''https://crates.io/''"

definition CRATES_API_URL :: string where
  "CRATES_API_URL = ''https://crates.io/api/v1/''"

definition CATEGORY_CRATES :: string where
  "CATEGORY_CRATES = ''crates''"

definition CATEGORY_SUMMARY :: string where
  "CATEGORY_SUMMARY = ''summary''"

section \<open>CratesClient\<close>

text \<open>\<^verbatim>\<open>CratesClient.fetch\<close>: one request, the text of the response or the exception.\<close>

definition client_fetch ::
  "'f collaborators \<Rightarrow> string \<Rightarrow> (string \<times> json) list option \<Rightarrow> string io" where
  "client_fetch env url payload = ([(url, payload)], http_fetch env url payload)"

definition summary :: "'f collaborators \<Rightarrow> string io" where
  "summary env = client_fetch env (urijoin env [JStr CRATES_API_URL, JStr CATEGORY_SUMMARY]) None"

definition crate :: "'f collaborators \<Rightarrow> json \<Rightarrow> string io" where
  "crate env crate_id =
     client_fetch env (urijoin env [JStr CRATES_API_URL, JStr CATEGORY_CRATES, crate_id]) None"

definition crate_attribute :: "'f collaborators \<Rightarrow> json \<Rightarrow> string \<Rightarrow> string io" where
  "crate_attribute env crate_id attribute =
     client_fetch env
       (urijoin env [JStr CRATES_API_URL, JStr CATEGORY_CRATES, crate_id, JStr attribute]) None"

subsection \<open>The paginated generator \<^verbatim>\<open>__fetch_items\<close>\<close>

text \<open>
  The generator is suspended either before its first statement or at its \<^verbatim>\<open>yield\<close>;
  its local variables are kept in between.
\<close>

datatype items_pc = AtStart | AtYield

record items_state =
  pc :: items_pc
  page :: int
  parsed_crates :: int
  total_crates :: json

definition client_items_init :: "int \<Rightarrow> items_state" where
  "client_items_init from_page =
     \<lparr>pc = AtStart, page = from_page, parsed_crates = 0, total_crates = JInt 0\<rparr>"

definition page_payload :: "int \<Rightarrow> (string \<times> json) list" where
  "page_payload p = [(''sort'', JStr ''alphabetical''), (''page'', JInt p)]"

text \<open>
  One pass through the body of the \<^verbatim>\<open>while\<close> loop, from its head to the \<^verbatim>\<open>yield\<close>.
  The handler of \<^verbatim>\<open>HTTPError\<close> logs the text of the response the exception carries
  and raises the exception it caught; every other exception leaves the \<^verbatim>\<open>try\<close> block
  as it is.
\<close>

definition client_items_body ::
  "'f collaborators \<Rightarrow> string \<Rightarrow> items_state \<Rightarrow> (string, items_state) gen_step io" where
  "client_items_body env path st =
     io_bind (client_fetch env path (Some (page_payload (page st)))) (\<lambda>raw_content.
     io_bind (io_lift (json_loads env raw_content)) (\<lambda>content.
     io_bind (io_lift (py_getitem content ''crates'')) (\<lambda>cs.
     io_bind (io_lift (py_len cs)) (\<lambda>n.
     io_bind (if \<not> py_truthy (total_crates st)
              then io_bind (io_lift (py_getitem content ''meta'')) (\<lambda>m.
                     io_lift (py_getitem m ''total''))
              else io_return (total_crates st)) (\<lambda>total.
     io_return (Yield raw_content
       (st\<lparr>pc := AtYield, parsed_crates := parsed_crates st + n, total_crates := total\<rparr>)))))))"

text \<open>
  One call of \<^verbatim>\<open>next\<close>. Resumed at the \<^verbatim>\<open>yield\<close>, the generator increments the page
  and compares the counters; \<^verbatim>\<open>fetch_data\<close> becomes false, and the generator returns,
  when the crates parsed so far have reached the total.
\<close>

definition client_items_next ::
  "'f collaborators \<Rightarrow> string \<Rightarrow> items_state \<Rightarrow> (string, items_state) gen_step io" where
  "client_items_next env path st =
     (case pc st of
        AtStart \<Rightarrow> client_items_body env path st
      | AtYield \<Rightarrow>
          (let st = st\<lparr>page := page st + 1\<rparr> in
           io_bind (io_lift (py_ge (parsed_crates st) (total_crates st))) (\<lambda>done.
             if done then io_return Stop
             else client_items_body env path st)))"

text \<open>The generator driven by a caller that calls \<^verbatim>\<open>next\<close> at most \<open>fuel\<close> times.\<close>

fun client_fetch_items :: "nat \<Rightarrow> 'f collaborators \<Rightarrow> string \<Rightarrow> items_state \<Rightarrow> string run" where
  "client_fetch_items 0 env path st = \<lparr>trace = [], yielded = [], outcome = Suspended\<rparr>"
| "client_fetch_items (Suc fuel) env path st =
     (case client_items_next env path st of
        (tr, Inl e) \<Rightarrow> \<lparr>trace = tr, yielded = [], outcome = Raised e\<rparr>
      | (tr, Inr Stop) \<Rightarrow> \<lparr>trace = tr, yielded = [], outcome = Returned\<rparr>
      | (tr, Inr (Yield raw_content st')) \<Rightarrow>
          run_prepend tr [raw_content] (client_fetch_items fuel env path st'))"

definition crates_path :: "'f collaborators \<Rightarrow> string" where
  "crates_path env = urijoin env [JStr CRATES_API_URL, JStr CATEGORY_CRATES]"

text \<open>\<^verbatim>\<open>CratesClient.crates\<close>: the generator for the listing, from \<open>from_page\<close>.\<close>

definition crates :: "nat \<Rightarrow> 'f collaborators \<Rightarrow> int \<Rightarrow> string run" where
  "crates fuel env from_page = client_fetch_items fuel env (crates_path env) (client_items_init from_page)"

section \<open>Crates: fetching\<close>

text \<open>\<^verbatim>\<open>__fetch_crate_data\<close> and the four fetchers of a crate's attributes.\<close>

definition fetch_crate_data :: "'f collaborators \<Rightarrow> json \<Rightarrow> json io" where
  "fetch_crate_data env crate_id =
     io_bind (crate env crate_id) (\<lambda>raw_crate.
     io_bind (io_lift (json_loads env raw_crate)) (\<lambda>c.
     io_lift (py_getitem c ''crate'')))"

definition fetch_crate_owner_team :: "'f collaborators \<Rightarrow> json \<Rightarrow> json io" where
  "fetch_crate_owner_team env crate_id =
     io_bind (crate_attribute env crate_id ''owner_team'') (\<lambda>raw_owner_team.
     io_lift (json_loads env raw_owner_team))"

definition fetch_crate_owner_user :: "'f collaborators \<Rightarrow> json \<Rightarrow> json io" where
  "fetch_crate_owner_user env crate_id =
     io_bind (crate_attribute env crate_id ''owner_user'') (\<lambda>raw_owner_user.
     io_lift (json_loads env raw_owner_user))"

definition fetch_crate_versions :: "'f collaborators \<Rightarrow> json \<Rightarrow> json io" where
  "fetch_crate_versions env crate_id =
     io_bind (crate_attribute env crate_id ''versions'') (\<lambda>raw_versions.
     io_lift (json_loads env raw_versions))"

definition fetch_crate_version_downloads :: "'f collaborators \<Rightarrow> json \<Rightarrow> json io" where
  "fetch_crate_version_downloads env crate_id =
     io_bind (crate_attribute env crate_id ''downloads'') (\<lambda>raw_version_downloads.
     io_lift (json_loads env raw_version_downloads))"

text \<open>
  \<^verbatim>\<open>__fetch_summary\<close>, asked for all its items; \<open>now\<close> is what \<^verbatim>\<open>datetime_utcnow()\<close>
  reads.
\<close>

definition fetch_summary :: "'f collaborators \<Rightarrow> datetime \<Rightarrow> json run" where
  "fetch_summary env now =
     (case io_bind (summary env) (\<lambda>raw_summary.
           io_bind (io_lift (json_loads env raw_summary)) (\<lambda>s.
           io_lift (py_setitem s ''fetched_on'' (JStr (str_datetime env now))))) of
        (tr, Inl e) \<Rightarrow> \<lparr>trace = tr, yielded = [], outcome = Raised e\<rparr>
      | (tr, Inr s) \<Rightarrow> \<lparr>trace = tr, yielded = [s], outcome = Returned\<rparr>)"

text \<open>
  The body of the inner \<^verbatim>\<open>for\<close> loop of \<^verbatim>\<open>__fetch_crates\<close> for one entry of a page:
  \<open>None\<close> when the entry is skipped by \<^verbatim>\<open>continue\<close>, the crate that is yielded
  otherwise. The right side of each assignment is evaluated before the item is stored.
\<close>

definition fetch_crates_entry :: "'f collaborators \<Rightarrow> datetime \<Rightarrow> json \<Rightarrow> json option io" where
  "fetch_crates_entry env from_date crate_container =
     io_bind (io_lift (py_getitem crate_container ''updated_at'')) (\<lambda>updated_at.
     io_bind (io_lift (str_to_datetime env updated_at)) (\<lambda>d.
     if instant d < instant from_date then io_return None
     else
       io_bind (io_lift (py_getitem crate_container ''id'')) (\<lambda>crate_id.
       io_bind (fetch_crate_data env crate_id) (\<lambda>c.
       io_bind (fetch_crate_owner_team env crate_id) (\<lambda>v.
       io_bind (io_lift (py_setitem c ''owner_team_data'' v)) (\<lambda>c.
       io_bind (fetch_crate_owner_user env crate_id) (\<lambda>v.
       io_bind (io_lift (py_setitem c ''owner_user_data'' v)) (\<lambda>c.
       io_bind (fetch_crate_version_downloads env crate_id) (\<lambda>v.
       io_bind (io_lift (py_setitem c ''version_downloads_data'' v)) (\<lambda>c.
       io_bind (fetch_crate_versions env crate_id) (\<lambda>v.
       io_bind (io_lift (py_setitem c ''versions_data'' v)) (\<lambda>c.
       io_return (Some c)))))))))))))"

text \<open>The inner \<^verbatim>\<open>for\<close> loop over the entries of one page.\<close>

fun fetch_crates_page :: "'f collaborators \<Rightarrow> datetime \<Rightarrow> json list \<Rightarrow> json run" where
  "fetch_crates_page env from_date [] = \<lparr>trace = [], yielded = [], outcome = Returned\<rparr>"
| "fetch_crates_page env from_date (crate_container # rest) =
     (case fetch_crates_entry env from_date crate_container of
        (tr, Inl e) \<Rightarrow> \<lparr>trace = tr, yielded = [], outcome = Raised e\<rparr>
      | (tr, Inr None) \<Rightarrow> run_prepend tr [] (fetch_crates_page env from_date rest)
      | (tr, Inr (Some c)) \<Rightarrow> run_prepend tr [c] (fetch_crates_page env from_date rest))"

text \<open>The entries of a raw page: \<^verbatim>\<open>json.loads(raw_crates)['crates']\<close>, as iterated.\<close>

definition page_entries :: "'f collaborators \<Rightarrow> string \<Rightarrow> error + json list" where
  "page_entries env raw_crates =
     (case json_loads env raw_crates of
        Inl e \<Rightarrow> Inl e
      | Inr cs \<Rightarrow>
          (case py_getitem cs ''crates'' of
             Inl e \<Rightarrow> Inl e
           | Inr l \<Rightarrow> py_iter l))"

text \<open>
  The outer \<^verbatim>\<open>for\<close> loop of \<^verbatim>\<open>__fetch_crates\<close>: it asks the page generator for its
  next page, handles the entries of that page, and only then asks again. \<open>fuel\<close> bounds
  the number of pages the caller lets it ask for.
\<close>

fun fetch_crates_loop ::
  "nat \<Rightarrow> 'f collaborators \<Rightarrow> datetime \<Rightarrow> string \<Rightarrow> items_state \<Rightarrow> json run" where
  "fetch_crates_loop 0 env from_date path st = \<lparr>trace = [], yielded = [], outcome = Suspended\<rparr>"
| "fetch_crates_loop (Suc fuel) env from_date path st =
     (case client_items_next env path st of
        (tr, Inl e) \<Rightarrow> \<lparr>trace = tr, yielded = [], outcome = Raised e\<rparr>
      | (tr, Inr Stop) \<Rightarrow> \<lparr>trace = tr, yielded = [], outcome = Returned\<rparr>
      | (tr, Inr (Yield raw_crates st')) \<Rightarrow>
          (case page_entries env raw_crates of
             Inl e \<Rightarrow> \<lparr>trace = tr, yielded = [], outcome = Raised e\<rparr>
           | Inr entries \<Rightarrow>
               (let r = fetch_crates_page env from_date entries in
                case outcome r of
                  Returned \<Rightarrow>
                    run_prepend (tr @ trace r) (yielded r)
                      (fetch_crates_loop fuel env from_date path st')
                | _ \<Rightarrow> run_prepend tr [] r)))"

text \<open>\<^verbatim>\<open>__fetch_crates\<close>, asked for the crates of at most \<open>fuel\<close> pages.\<close>

definition fetch_crates :: "nat \<Rightarrow> 'f collaborators \<Rightarrow> pyval \<Rightarrow> json run" where
  "fetch_crates fuel env from_date =
     (case datetime_to_utc env from_date of
        Inl e \<Rightarrow> \<lparr>trace = [], yielded = [], outcome = Raised e\<rparr>
      | Inr from_date \<Rightarrow>
          fetch_crates_loop fuel env from_date (crates_path env) (client_items_init 1))"

text \<open>\<^verbatim>\<open>Crates.fetch_items\<close>: the generator for the category.\<close>

definition fetch_items ::
  "nat \<Rightarrow> 'f collaborators \<Rightarrow> datetime \<Rightarrow> string \<Rightarrow> datetime \<Rightarrow> json run" where
  "fetch_items fuel env now category from_date =
     (if category = CATEGORY_CRATES then fetch_crates fuel env (PyDatetime from_date)
      else fetch_summary env now)"

text \<open>
  \<^verbatim>\<open>Crates.fetch\<close>. \<open>super_fetch\<close> is \<^verbatim>\<open>Backend.fetch\<close> of Perceval, which receives
  the category and the keyword argument \<^verbatim>\<open>from_date\<close>.
\<close>

definition fetch ::
  "'f collaborators \<Rightarrow> (string \<Rightarrow> datetime \<Rightarrow> 'r) \<Rightarrow> string \<Rightarrow> pyval \<Rightarrow> error + 'r" where
  "fetch env super_fetch category from_date =
     (let from_date = (if \<not> pyval_truthy from_date then PyDatetime (DEFAULT_DATETIME env)
                       else from_date)
      in case datetime_to_utc env from_date of
           Inl e \<Rightarrow> Inl e
         | Inr from_date \<Rightarrow> Inr (super_fetch category from_date))"

section \<open>Crates: the metadata functions\<close>

definition metadata_category :: "(string \<times> json) list \<Rightarrow> string" where
  "metadata_category item =
     (if ''num_downloads'' \<in> fst ` set item then CATEGORY_SUMMARY else CATEGORY_CRATES)"

definition metadata_id :: "'f collaborators \<Rightarrow> (string \<times> json) list \<Rightarrow> error + 'f pyres" where
  "metadata_id env item =
     (if metadata_category item = CATEGORY_CRATES
      then (case py_getitem (JObj item) ''id'' of
              Inl e \<Rightarrow> Inl e
            | Inr v \<Rightarrow> Inr (PyStr (py_str env v)))
      else (case py_getitem (JObj item) ''fetched_on'' of
              Inl e \<Rightarrow> Inl e
            | Inr ts \<Rightarrow>
                (case str_to_datetime env ts of
                   Inl e \<Rightarrow> Inl e
                 | Inr ts \<Rightarrow> Inr (PyStr (str_float env (timestamp env ts))))))"

definition metadata_updated_on ::
  "'f collaborators \<Rightarrow> (string \<times> json) list \<Rightarrow> error + 'f pyres" where
  "metadata_updated_on env item =
     (case (if metadata_category item = CATEGORY_CRATES
            then py_getitem (JObj item) ''updated_at''
            else py_getitem (JObj item) ''fetched_on'') of
        Inl e \<Rightarrow> Inl e
      | Inr ts \<Rightarrow>
          (case str_to_datetime env ts of
             Inl e \<Rightarrow> Inl e
           | Inr ts \<Rightarrow> Inr (PyFloat (timestamp env ts))))"

section \<open>Vocabulary of the statements\<close>

text \<open>The four keys that \<^verbatim>\<open>__fetch_crates\<close> adds to a crate, and a crate that has them all.\<close>

definition extra_keys :: "string list" where
  "extra_keys = [''owner_team_data'', ''owner_user_data'', ''version_downloads_data'', ''versions_data'']"

fun complete_crate :: "json \<Rightarrow> bool" where
  "complete_crate (JObj kvs) = list_all (\<lambda>k. map_of kvs k \<noteq> None) extra_keys"
| "complete_crate _ = False"

text \<open>
  The five requests for a crate, in the order of the calls in \<^verbatim>\<open>__fetch_crates\<close>: the
  request of \<^verbatim>\<open>client.crate\<close> for its detail, then the requests of the four sub-fetches
  of its attributes through \<^verbatim>\<open>client.crate_attribute\<close>; and the crate after its four
  assignments.
\<close>

definition sub_requests :: "'f collaborators \<Rightarrow> json \<Rightarrow> request list" where
  "sub_requests env crate_id =
     [(urijoin env [JStr CRATES_API_URL, JStr CATEGORY_CRATES, crate_id], None),
      (urijoin env [JStr CRATES_API_URL, JStr CATEGORY_CRATES, crate_id, JStr ''owner_team''], None),
      (urijoin env [JStr CRATES_API_URL, JStr CATEGORY_CRATES, crate_id, JStr ''owner_user''], None),
      (urijoin env [JStr CRATES_API_URL, JStr CATEGORY_CRATES, crate_id, JStr ''downloads''], None),
      (urijoin env [JStr CRATES_API_URL, JStr CATEGORY_CRATES, crate_id, JStr ''versions''], None)]"

definition attribute_requests :: "'f collaborators \<Rightarrow> json \<Rightarrow> request list" where
  "attribute_requests env crate_id =
     concat (map (\<lambda>attribute. fst (crate_attribute env crate_id attribute))
       [''owner_team'', ''owner_user'', ''downloads'', ''versions''])"

definition with_extra_keys :: "(string \<times> json) list \<Rightarrow> json \<Rightarrow> json \<Rightarrow> json \<Rightarrow> json \<Rightarrow> json" where
  "with_extra_keys kvs owner_team owner_user version_downloads versions =
     JObj (AList.update ''versions_data'' versions
          (AList.update ''version_downloads_data'' version_downloads
          (AList.update ''owner_user_data'' owner_user
          (AList.update ''owner_team_data'' owner_team kvs))))"

text \<open>
  What \<^verbatim>\<open>__fetch_items\<close> reads from a raw page: \<^verbatim>\<open>len(content['crates'])\<close> and
  \<^verbatim>\<open>content['meta']['total']\<close>; and the request it sends for a page.
\<close>

definition page_len :: "'f collaborators \<Rightarrow> string \<Rightarrow> error + int" where
  "page_len env raw_content =
     (case json_loads env raw_content of
        Inl e \<Rightarrow> Inl e
      | Inr content \<Rightarrow>
          (case py_getitem content ''crates'' of
             Inl e \<Rightarrow> Inl e
           | Inr cs \<Rightarrow> py_len cs))"

definition page_total :: "'f collaborators \<Rightarrow> string \<Rightarrow> error + json" where
  "page_total env raw_content =
     (case json_loads env raw_content of
        Inl e \<Rightarrow> Inl e
      | Inr content \<Rightarrow>
          (case py_getitem content ''meta'' of
             Inl e \<Rightarrow> Inl e
           | Inr m \<Rightarrow> py_getitem m ''total''))"

definition page_request :: "string \<Rightarrow> int \<Rightarrow> request" where
  "page_request path p = (path, Some (page_payload p))"

text \<open>
  The first \<open>n\<close> pages that \<^verbatim>\<open>__fetch_crates\<close> asks for, from a state of the page
  generator, are served and handled without an exception: the requests sent and the
  records yielded for them, and the state of the page generator afterwards.
\<close>

fun pages_handled ::
  "nat \<Rightarrow> 'f collaborators \<Rightarrow> datetime \<Rightarrow> string \<Rightarrow> items_state \<Rightarrow>
     (request list \<times> json list \<times> items_state) option" where
  "pages_handled 0 env from_date path st = Some ([], [], st)"
| "pages_handled (Suc n) env from_date path st =
     (case client_items_next env path st of
        (tr, Inr (Yield raw_crates st')) \<Rightarrow>
          (case page_entries env raw_crates of
             Inl e \<Rightarrow> None
           | Inr entries \<Rightarrow>
               (let r = fetch_crates_page env from_date entries in
                if outcome r = Returned
                then map_option (\<lambda>(tr', ys, st''). (tr @ trace r @ tr', yielded r @ ys, st''))
                       (pages_handled n env from_date path st')
                else None))
      | _ \<Rightarrow> None)"

text \<open>
  The test of the watermark in the words of the specification: the entry has an
  \<^verbatim>\<open>updated_at\<close> that parses to a time before \<^verbatim>\<open>from_date\<close>. \<open>entry_record\<close> is what an
  entry contributes to the output, and \<open>page_records\<close> lists that for the entries of a raw
  page that are not before the watermark.
\<close>

definition before_watermark :: "'f collaborators \<Rightarrow> datetime \<Rightarrow> json \<Rightarrow> bool" where
  "before_watermark env from_date crate_container =
     (case py_getitem crate_container ''updated_at'' of
        Inl e \<Rightarrow> False
      | Inr updated_at \<Rightarrow>
          (case str_to_datetime env updated_at of
             Inl e \<Rightarrow> False
           | Inr d \<Rightarrow> instant d < instant from_date))"

definition entry_record :: "'f collaborators \<Rightarrow> datetime \<Rightarrow> json \<Rightarrow> json list" where
  "entry_record env from_date crate_container =
     (case snd (fetch_crates_entry env from_date crate_container) of
        Inr (Some c) \<Rightarrow> [c]
      | _ \<Rightarrow> [])"

definition page_records :: "'f collaborators \<Rightarrow> datetime \<Rightarrow> string \<Rightarrow> json list list" where
  "page_records env from_date raw_crates =
     (case page_entries env raw_crates of
        Inl e \<Rightarrow> []
      | Inr entries \<Rightarrow>
          map (entry_record env from_date)
            (filter (\<lambda>crate_container. \<not> before_watermark env from_date crate_container) entries))"

section \<open>A recorded registry\<close>

text \<open>
  Concrete collaborators, for running the backend on recorded responses. \<open>ex_urijoin\<close>
  joins the string form of its arguments, each stripped of slashes, by slashes; the
  decoder and the date parser are tables of the documents and dates that occur below;
  floats are rational numbers.
\<close>

definition ex_strip :: "string \<Rightarrow> string" where
  "ex_strip s = rev (dropWhile (\<lambda>c. c = CHR ''/'') (rev (dropWhile (\<lambda>c. c = CHR ''/'') s)))"

fun ex_join :: "string list \<Rightarrow> string" where
  "ex_join [] = []"
| "ex_join [x] = x"
| "ex_join (x # y # r) = x @ ''/'' @ ex_join (y # r)"

fun ex_digits :: "nat \<Rightarrow> string" where
  "ex_digits n = (if n < 10 then [''0123456789'' ! n]
                  else ex_digits (n div 10) @ [''0123456789'' ! (n mod 10)])"

fun ex_str :: "json \<Rightarrow> string" where
  "ex_str (JStr s) = s"
| "ex_str (JInt n) = (if n < 0 then ''-'' @ ex_digits (nat (- n)) else ex_digits (nat n))"
| "ex_str JNull = ''None''"
| "ex_str (JBool b) = (if b then ''True'' else ''False'')"
| "ex_str _ = ''...''"

definition ex_urijoin :: "json list \<Rightarrow> string" where
  "ex_urijoin args = ex_join (map (\<lambda>x. ex_strip (ex_str x)) args)"

definition ex_dates :: "(string \<times> datetime) list" where
  "ex_dates =
     [(''2010-01-01'', Datetime 1262304000000000),
      (''2020-01-01'', Datetime 1577836800000000),
      (''2021-06-01'', Datetime 1622505600000000),
      (''2020-01-01T00:00:00+00:00'', Datetime 1577836800000000),
      (''2021-06-01T00:00:00+00:00'', Datetime 1622505600000000)]"

fun ex_str_to_datetime :: "json \<Rightarrow> error + datetime" where
  "ex_str_to_datetime (JStr s) =
     (case map_of ex_dates s of None \<Rightarrow> Inl InvalidDateError | Some d \<Rightarrow> Inr d)"
| "ex_str_to_datetime _ = Inl InvalidDateError"

fun ex_datetime_to_utc :: "pyval \<Rightarrow> error + datetime" where
  "ex_datetime_to_utc (PyDatetime d) = Inr d"
| "ex_datetime_to_utc _ = Inl InvalidDateError"

text \<open>The documents the registry serves, and what they decode to.\<close>

definition ex_page1 :: string where
  \<open>ex_page1 = ''{"crates":[{"id":"a","updated_at":"2020-01-01"},{"id":"b","updated_at":"2010-01-01"}],"meta":{"total":3}}''\<close>

definition ex_page2 :: string where
  \<open>ex_page2 = ''{"crates":[{"id":"c","updated_at":"2021-06-01"}],"meta":{"total":3}}''\<close>

definition ex_sparse1 :: string where
  \<open>ex_sparse1 = ''{"crates":[],"meta":{"total":1}}''\<close>

definition ex_sparse2 :: string where
  \<open>ex_sparse2 = ''{"crates":[{"id":"c","updated_at":"2021-06-01"}],"meta":{"total":1}}''\<close>

definition ex_void :: string where
  \<open>ex_void = ''{"crates":[],"meta":{"total":0}}''\<close>

definition ex_detail_a :: string where
  \<open>ex_detail_a = ''{"crate":{"id":"a","updated_at":"2020-01-01"}}''\<close>

definition ex_detail_c :: string where
  \<open>ex_detail_c = ''{"crate":{"id":"c","updated_at":"2021-06-01"}}''\<close>

definition ex_detail_c_stale :: string where
  \<open>ex_detail_c_stale = ''{"crate":{"id":"c","updated_at":"2010-01-01"}}''\<close>

definition ex_teams :: string where
  \<open>ex_teams = ''{"teams":[]}''\<close>

definition ex_users :: string where
  \<open>ex_users = ''{"users":[]}''\<close>

definition ex_downloads :: string where
  \<open>ex_downloads = ''{"version_downloads":[]}''\<close>

definition ex_versions :: string where
  \<open>ex_versions = ''{"versions":[]}''\<close>

definition ex_summary_doc :: string where
  \<open>ex_summary_doc = ''{"num_downloads":5}''\<close>

definition ex_entry_a :: json where
  "ex_entry_a = JObj [(''id'', JStr ''a''), (''updated_at'', JStr ''2020-01-01'')]"

definition ex_entry_b :: json where
  "ex_entry_b = JObj [(''id'', JStr ''b''), (''updated_at'', JStr ''2010-01-01'')]"

definition ex_entry_c :: json where
  "ex_entry_c = JObj [(''id'', JStr ''c''), (''updated_at'', JStr ''2021-06-01'')]"

definition ex_stale_c :: json where
  "ex_stale_c = JObj [(''id'', JStr ''c''), (''updated_at'', JStr ''2010-01-01'')]"

definition ex_documents :: "(string \<times> json) list" where
  "ex_documents =
     [(ex_page1, JObj [(''crates'', JArr [ex_entry_a, ex_entry_b]), (''meta'', JObj [(''total'', JInt 3)])]),
      (ex_page2, JObj [(''crates'', JArr [ex_entry_c]), (''meta'', JObj [(''total'', JInt 3)])]),
      (ex_sparse1, JObj [(''crates'', JArr []), (''meta'', JObj [(''total'', JInt 1)])]),
      (ex_sparse2, JObj [(''crates'', JArr [ex_entry_c]), (''meta'', JObj [(''total'', JInt 1)])]),
      (ex_void, JObj [(''crates'', JArr []), (''meta'', JObj [(''total'', JInt 0)])]),
      (ex_detail_a, JObj [(''crate'', ex_entry_a)]),
      (ex_detail_c, JObj [(''crate'', ex_entry_c)]),
      (ex_detail_c_stale, JObj [(''crate'', ex_stale_c)]),
      (ex_teams, JObj [(''teams'', JArr [])]),
      (ex_users, JObj [(''users'', JArr [])]),
      (ex_downloads, JObj [(''version_downloads'', JArr [])]),
      (ex_versions, JObj [(''versions'', JArr [])]),
      (ex_summary_doc, JObj [(''num_downloads'', JInt 5)])]"

definition ex_json_loads :: "string \<Rightarrow> error + json" where
  "ex_json_loads raw = (case map_of ex_documents raw of None \<Rightarrow> Inl JSONDecodeError | Some v \<Rightarrow> Inr v)"

text \<open>
  The collaborators over a registry: a table from requests to documents, with
  \<^verbatim>\<open>404\<close> for a request that is not in it.
\<close>

definition ex_env :: "(request \<times> string) list \<Rightarrow> rat collaborators" where
  "ex_env registry =
     \<lparr>urijoin = ex_urijoin,
      http_fetch = (\<lambda>url payload. case map_of registry (url, payload) of
                       None \<Rightarrow> Inl (HTTPError ''404 Not Found'') | Some raw \<Rightarrow> Inr raw),
      json_loads = ex_json_loads,
      str_to_datetime = ex_str_to_datetime,
      datetime_to_utc = ex_datetime_to_utc,
      timestamp = (\<lambda>d. of_int (instant d) / 1000000),
      str_float = (\<lambda>x. if x = 1577836800 then ''1577836800.0'' else ''...''),
      py_str = ex_str,
      str_datetime = (\<lambda>d. if instant d = 1577836800000000 then ''2020-01-01 00:00:00+00:00''
                          else ''2020-01-01 00:00:01+00:00''),
      DEFAULT_DATETIME = Datetime 0\<rparr>"

definition ex_path :: string where
  "ex_path = ''https://crates.io/api/v1/crates''"

definition ex_listing :: "(request \<times> string) list" where
  "ex_listing = [(page_request ex_path 1, ex_page1), (page_request ex_path 2, ex_page2)]"

definition ex_sparse :: "(request \<times> string) list" where
  "ex_sparse = [(page_request ex_path 1, ex_sparse1), (page_request ex_path 2, ex_sparse2)]"

definition ex_void_registry :: "(request \<times> string) list" where
  "ex_void_registry = [(page_request ex_path 1, ex_void)]"

definition ex_crate :: "string \<Rightarrow> string \<Rightarrow> (request \<times> string) list" where
  "ex_crate name detail =
     [((ex_path @ ''/'' @ name, None), detail),
      ((ex_path @ ''/'' @ name @ ''/owner_team'', None), ex_teams),
      ((ex_path @ ''/'' @ name @ ''/owner_user'', None), ex_users),
      ((ex_path @ ''/'' @ name @ ''/downloads'', None), ex_downloads),
      ((ex_path @ ''/'' @ name @ ''/versions'', None), ex_versions)]"

definition ex_registry :: "(request \<times> string) list" where
  "ex_registry = ex_listing @ ex_crate ''a'' ex_detail_a @ ex_crate ''c'' ex_detail_c"

text \<open>The same registry, but the detail of crate \<open>c\<close> reports an older update.\<close>

definition ex_registry_stale :: "(request \<times> string) list" where
  "ex_registry_stale = ex_listing @ ex_crate ''a'' ex_detail_a @ ex_crate ''c'' ex_detail_c_stale"

text \<open>A registry that does not serve the versions of crate \<open>c\<close>.\<close>

definition ex_registry_broken :: "(request \<times> string) list" where
  "ex_registry_broken =
     ex_listing @ ex_crate ''a'' ex_detail_a @ butlast (ex_crate ''c'' ex_detail_c)"

definition ex_summary_registry :: "(request \<times> string) list" where
  "ex_summary_registry = [((''https://crates.io/api/v1/summary'', None), ex_summary_doc)]"

definition ex_from_date :: datetime where
  "ex_from_date = Datetime 1420070400000000"

text \<open>The record of a crate whose four attributes are the empty lists of \<open>ex_crate\<close>.\<close>

definition ex_record :: "(string \<times> json) list \<Rightarrow> json" where
  "ex_record kvs =
     with_extra_keys kvs (JObj [(''teams'', JArr [])]) (JObj [(''users'', JArr [])])
       (JObj [(''version_downloads'', JArr [])]) (JObj [(''versions'', JArr [])])"

definition ex_record_a :: json where
  "ex_record_a = ex_record [(''id'', JStr ''a''), (''updated_at'', JStr ''2020-01-01'')]"

definition ex_record_c :: json where
  "ex_record_c = ex_record [(''id'', JStr ''c''), (''updated_at'', JStr ''2021-06-01'')]"

definition ex_record_c_stale :: json where
  "ex_record_c_stale = ex_record [(''id'', JStr ''c''), (''updated_at'', JStr ''2010-01-01'')]"

definition ex_summary_item :: "(string \<times> json) list" where
  "ex_summary_item = [(''num_downloads'', JInt 5), (''fetched_on'', JStr ''2020-01-01T00:00:00+00:00'')]"

definition ex_crate_item :: "(string \<times> json) list" where
  "ex_crate_item = [(''id'', JInt 42), (''updated_at'', JStr ''2021-06-01T00:00:00+00:00'')]"

section \<open>Auxiliary facts\<close>

subsection \<open>Sequencing\<close>

lemma io_bind_lift [simp]:
  "io_bind (io_lift (Inr x)) f = f x" "io_bind (io_lift (Inl e)) f = ([], Inl e)"
  by (simp_all add: io_lift_def)

lemma io_bind_return [simp]: "io_bind (io_return x) f = f x"
  by (simp add: io_return_def)

lemma io_bind_Inr: "snd m = Inr x \<Longrightarrow> io_bind m f = (fst m @ fst (f x), snd (f x))"
  by (cases m) simp

lemma fst_io_bind_lift: "fst (io_bind (tr, r) (\<lambda>x. io_lift (g x))) = tr"
  by (cases r) (simp_all add: io_lift_def)

lemma fst_io_bind:
  "fst (io_bind m f) = fst m @ (case snd m of Inl e \<Rightarrow> [] | Inr x \<Rightarrow> fst (f x))"
  by (cases m; cases "snd m") auto

lemma snd_io_bind:
  "snd (io_bind m f) = (case snd m of Inl e \<Rightarrow> Inl e | Inr x \<Rightarrow> snd (f x))"
  by (cases m; cases "snd m") auto

subsection \<open>Python operations\<close>

lemma py_len_nonneg: "py_len v = Inr n \<Longrightarrow> 0 \<le> n"
  by (cases v) auto

lemma py_setitem_InrD:
  "py_setitem c k v = Inr c' \<Longrightarrow> \<exists>kvs. c = JObj kvs \<and> c' = JObj (AList.update k v kvs)"
  by (cases c) auto

lemma update_other_key: "k \<noteq> k' \<Longrightarrow> map_of (AList.update k' v kvs) k = map_of kvs k"
  by (simp add: update_conv')

subsection \<open>The page generator\<close>

text \<open>
  What one call of \<^verbatim>\<open>next\<close> does in each situation, and the run of the generator over
  a given sequence of pages.
\<close>

lemma page_len_nonneg: "page_len env raw = Inr n \<Longrightarrow> 0 \<le> n"
  by (auto simp: page_len_def split: sum.splits dest: py_len_nonneg)

lemma items_body_known_total:
  assumes "http_fetch env path (Some (page_payload (page st))) = Inr raw"
    and "page_len env raw = Inr n"
    and "py_truthy (total_crates st)"
  shows "client_items_body env path st =
           ([page_request path (page st)],
            Inr (Yield raw (st\<lparr>pc := AtYield, parsed_crates := parsed_crates st + n\<rparr>)))"
  using assms
  by (auto simp: client_items_body_def client_fetch_def page_len_def page_request_def
      io_return_def split: sum.splits)

lemma items_body_first_total:
  assumes "http_fetch env path (Some (page_payload (page st))) = Inr raw"
    and "page_len env raw = Inr n"
    and "\<not> py_truthy (total_crates st)"
    and "page_total env raw = Inr t"
  shows "client_items_body env path st =
           ([page_request path (page st)],
            Inr (Yield raw
              (st\<lparr>pc := AtYield, parsed_crates := parsed_crates st + n, total_crates := t\<rparr>)))"
  using assms
  by (auto simp: client_items_body_def client_fetch_def page_len_def page_total_def
      page_request_def io_return_def split: sum.splits)

lemma fst_items_body: "fst (client_items_body env path st) = [page_request path (page st)]"
  by (simp add: client_items_body_def fst_io_bind snd_io_bind client_fetch_def page_request_def
      io_lift_def io_return_def split: sum.split)

lemma items_next_stop:
  assumes "T \<le> s"
  shows "client_items_next env path \<lparr>pc = AtYield, page = p, parsed_crates = s, total_crates = JInt T\<rparr>
           = ([], Inr Stop)"
  using assms by (simp add: client_items_next_def io_return_def Let_def)

lemma items_next_more:
  assumes "s < T" and "T \<noteq> 0"
    and "http_fetch env path (Some (page_payload (p + 1))) = Inr raw"
    and "page_len env raw = Inr n"
  shows "client_items_next env path \<lparr>pc = AtYield, page = p, parsed_crates = s, total_crates = JInt T\<rparr>
           = ([page_request path (p + 1)],
              Inr (Yield raw \<lparr>pc = AtYield, page = p + 1, parsed_crates = s + n, total_crates = JInt T\<rparr>))"
  using assms by (simp add: client_items_next_def items_body_known_total Let_def)

lemma items_next_first:
  assumes "http_fetch env path (Some (page_payload p)) = Inr raw"
    and "page_len env raw = Inr n"
    and "page_total env raw = Inr t"
  shows "client_items_next env path (client_items_init p)
           = ([page_request path p],
              Inr (Yield raw \<lparr>pc = AtYield, page = p, parsed_crates = n, total_crates = t\<rparr>))"
  using assms by (simp add: client_items_next_def client_items_init_def items_body_first_total)

lemma items_next_yield_served:
  assumes "client_items_next env path st = (tr, Inr (Yield raw st'))"
  shows "\<exists>p. http_fetch env path (Some (page_payload p)) = Inr raw \<and> tr = [page_request path p]"
proof -
  have body: "\<exists>p. http_fetch env path (Some (page_payload p)) = Inr raw \<and> tr = [page_request path p]"
    if "client_items_body env path s = (tr, Inr (Yield raw st'))" for s
  proof -
    from that have "snd (client_items_body env path s) = Inr (Yield raw st')" by simp
    then have "http_fetch env path (Some (page_payload (page s))) = Inr raw"
      by (auto simp: client_items_body_def snd_io_bind client_fetch_def io_lift_def io_return_def
          split: sum.splits if_splits)
    moreover from that fst_items_body [of env path s] have "tr = [page_request path (page s)]"
      by simp
    ultimately show ?thesis by blast
  qed
  show ?thesis
  proof (cases "pc st")
    case AtStart
    with assms show ?thesis by (auto simp: client_items_next_def intro: body)
  next
    case AtYield
    with assms show ?thesis
      by (cases "py_ge (parsed_crates st) (total_crates st)")
         (auto simp: client_items_next_def io_lift_def io_return_def Let_def split: if_splits
           intro: body)
  qed
qed

lemma items_resume:
  assumes "length lens = length pages"
    and "\<forall>i<length pages. http_fetch env path (Some (page_payload (p + 1 + int i))) = Inr (pages ! i)"
    and "\<forall>i<length pages. page_len env (pages ! i) = Inr (lens ! i)"
    and "\<forall>j<length pages. s + sum_list (take j lens) < T"
    and "T \<le> s + sum_list lens"
    and "0 \<le> s"
    and "length pages < fuel"
  shows "client_fetch_items fuel env path
           \<lparr>pc = AtYield, page = p, parsed_crates = s, total_crates = JInt T\<rparr> =
         \<lparr>trace = map (\<lambda>i. page_request path (p + 1 + int i)) [0..<length pages],
          yielded = pages, outcome = Returned\<rparr>"
  using assms
proof (induction pages arbitrary: lens p s fuel)
  case Nil
  then obtain fuel' where "fuel = Suc fuel'" by (cases fuel) auto
  with Nil show ?case by (simp add: items_next_stop)
next
  case (Cons raw pages)
  from Cons.prems(1) obtain n ns where lens: "lens = n # ns" and ln: "length ns = length pages"
    by (cases lens) auto
  from Cons.prems(7) obtain fuel' where fuel: "fuel = Suc fuel'" and fuel': "length pages < fuel'"
    by (cases fuel) auto
  from Cons.prems(4) have "s + sum_list (take 0 lens) < T" by blast
  then have sT: "s < T" by simp
  with Cons.prems(6) have T0: "T \<noteq> 0" by simp
  from Cons.prems(2) have raw: "http_fetch env path (Some (page_payload (p + 1))) = Inr raw"
    by fastforce
  from Cons.prems(3) lens have n: "page_len env raw = Inr n" by fastforce
  then have n0: "0 \<le> n" by (rule page_len_nonneg)
  have step: "client_items_next env path
      \<lparr>pc = AtYield, page = p, parsed_crates = s, total_crates = JInt T\<rparr> =
      ([page_request path (p + 1)],
       Inr (Yield raw \<lparr>pc = AtYield, page = p + 1, parsed_crates = s + n, total_crates = JInt T\<rparr>))"
    using sT T0 raw n by (rule items_next_more)
  have served: "\<forall>i<length pages.
      http_fetch env path (Some (page_payload (p + 1 + 1 + int i))) = Inr (pages ! i)"
  proof (intro allI impI)
    fix i assume "i < length pages"
    then have "Suc i < length (raw # pages)" by simp
    with Cons.prems(2) have
      "http_fetch env path (Some (page_payload (p + 1 + int (Suc i)))) = Inr ((raw # pages) ! Suc i)"
      by blast
    then show "http_fetch env path (Some (page_payload (p + 1 + 1 + int i))) = Inr (pages ! i)"
      by (simp add: add.commute add.left_commute)
  qed
  have lens': "\<forall>i<length pages. page_len env (pages ! i) = Inr (ns ! i)"
  proof (intro allI impI)
    fix i assume "i < length pages"
    then have "Suc i < length (raw # pages)" by simp
    with Cons.prems(3) have "page_len env ((raw # pages) ! Suc i) = Inr (lens ! Suc i)" by blast
    with lens show "page_len env (pages ! i) = Inr (ns ! i)" by simp
  qed
  have before: "\<forall>j<length pages. (s + n) + sum_list (take j ns) < T"
  proof (intro allI impI)
    fix j assume "j < length pages"
    then have "Suc j < length (raw # pages)" by simp
    with Cons.prems(4) have "s + sum_list (take (Suc j) lens) < T" by blast
    with lens show "(s + n) + sum_list (take j ns) < T" by simp
  qed
  from Cons.prems(5) lens have reach: "T \<le> (s + n) + sum_list ns" by simp
  from Cons.prems(6) n0 have s0: "0 \<le> s + n" by simp
  have IH: "client_fetch_items fuel' env path
      \<lparr>pc = AtYield, page = p + 1, parsed_crates = s + n, total_crates = JInt T\<rparr> =
      \<lparr>trace = map (\<lambda>i. page_request path (p + 1 + 1 + int i)) [0..<length pages],
       yielded = pages, outcome = Returned\<rparr>"
    using ln served lens' before reach s0 fuel' by (rule Cons.IH)
  have idx: "map (\<lambda>i. page_request path (p + 1 + int i)) [0..<length (raw # pages)] =
      page_request path (p + 1) # map (\<lambda>i. page_request path (p + 1 + 1 + int i)) [0..<length pages]"
    by (simp add: upt_conv_Cons map_Suc_upt [symmetric] add.commute add.left_commute del: upt_Suc)
  show ?case
    unfolding fuel idx by (simp add: step IH run_prepend_def)
qed

lemma trace_items_run:
  "\<exists>rest. trace (client_fetch_items (Suc fuel) env path st) = fst (client_items_next env path st) @ rest"
  by (cases "client_items_next env path st")
     (auto simp: run_prepend_def split: sum.splits gen_step.splits)

text \<open>
  Once the generator has returned or raised, asking it more often changes nothing.
\<close>

lemma items_run_stable:
  "outcome (client_fetch_items fuel env path st) \<noteq> Suspended \<Longrightarrow>
     client_fetch_items (fuel + k) env path st = client_fetch_items fuel env path st"
  by (induction fuel arbitrary: st)
     (auto simp: run_prepend_def split: prod.splits sum.splits gen_step.splits)

subsection \<open>One entry of a page\<close>

text \<open>
  Each sub-fetch sends exactly one request, whether it succeeds or not. An entry is
  skipped exactly when its \<^verbatim>\<open>updated_at\<close> is before the watermark; a record is yielded
  only after all five sub-fetches and all four assignments.
\<close>

lemma fst_fetch_crate_data:
  "fst (fetch_crate_data env cid) = [(urijoin env [JStr CRATES_API_URL, JStr CATEGORY_CRATES, cid], None)]"
proof -
  have "fst (io_bind (tr, r) (\<lambda>x. io_bind (io_lift (g x)) (\<lambda>y. io_lift (h y)))) = tr"
    for tr :: "request list" and r :: "error + string" and g :: "string \<Rightarrow> error + json"
      and h :: "json \<Rightarrow> error + json"
  proof (cases r)
    case (Inr x)
    then show ?thesis by (cases "g x") (simp_all add: io_lift_def)
  qed simp
  then show ?thesis
    unfolding fetch_crate_data_def crate_def client_fetch_def .
qed

lemma fst_fetch_crate_owner_team:
  "fst (fetch_crate_owner_team env cid) =
     [(urijoin env [JStr CRATES_API_URL, JStr CATEGORY_CRATES, cid, JStr ''owner_team''], None)]"
  unfolding fetch_crate_owner_team_def crate_attribute_def client_fetch_def
  by (rule fst_io_bind_lift)

lemma fst_fetch_crate_owner_user:
  "fst (fetch_crate_owner_user env cid) =
     [(urijoin env [JStr CRATES_API_URL, JStr CATEGORY_CRATES, cid, JStr ''owner_user''], None)]"
  unfolding fetch_crate_owner_user_def crate_attribute_def client_fetch_def
  by (rule fst_io_bind_lift)

lemma fst_fetch_crate_version_downloads:
  "fst (fetch_crate_version_downloads env cid) =
     [(urijoin env [JStr CRATES_API_URL, JStr CATEGORY_CRATES, cid, JStr ''downloads''], None)]"
  unfolding fetch_crate_version_downloads_def crate_attribute_def client_fetch_def
  by (rule fst_io_bind_lift)

lemma fst_fetch_crate_versions:
  "fst (fetch_crate_versions env cid) =
     [(urijoin env [JStr CRATES_API_URL, JStr CATEGORY_CRATES, cid, JStr ''versions''], None)]"
  unfolding fetch_crate_versions_def crate_attribute_def client_fetch_def
  by (rule fst_io_bind_lift)

lemmas fst_sub_fetch =
  fst_fetch_crate_data fst_fetch_crate_owner_team fst_fetch_crate_owner_user
  fst_fetch_crate_version_downloads fst_fetch_crate_versions

lemma complete_with_extra_keys: "complete_crate (with_extra_keys kvs a b c d)"
  by (simp add: with_extra_keys_def extra_keys_def update_conv')

lemma entry_skipped:
  assumes "py_getitem entry ''updated_at'' = Inr u" and "str_to_datetime env u = Inr d"
    and "instant d < instant from_date"
  shows "fetch_crates_entry env from_date entry = ([], Inr None)"
  using assms by (simp add: fetch_crates_entry_def io_return_def)

lemma entry_fetched:
  assumes "py_getitem entry ''updated_at'' = Inr u" and "str_to_datetime env u = Inr d"
    and "instant from_date \<le> instant d"
    and "py_getitem entry ''id'' = Inr cid"
    and "snd (fetch_crate_data env cid) = Inr (JObj kvs)"
    and "snd (fetch_crate_owner_team env cid) = Inr v1"
    and "snd (fetch_crate_owner_user env cid) = Inr v2"
    and "snd (fetch_crate_version_downloads env cid) = Inr v3"
    and "snd (fetch_crate_versions env cid) = Inr v4"
  shows "fetch_crates_entry env from_date entry =
           (sub_requests env cid, Inr (Some (with_extra_keys kvs v1 v2 v3 v4)))"
  using assms
  by (simp add: fetch_crates_entry_def io_bind_Inr fst_sub_fetch sub_requests_def
      with_extra_keys_def io_return_def)

lemma entry_yield_inversion:
  assumes "snd (fetch_crates_entry env from_date entry) = Inr (Some c)"
  shows "\<exists>u d cid kvs v1 v2 v3 v4.
           py_getitem entry ''updated_at'' = Inr u \<and> str_to_datetime env u = Inr d \<and>
           instant from_date \<le> instant d \<and> py_getitem entry ''id'' = Inr cid \<and>
           snd (fetch_crate_data env cid) = Inr (JObj kvs) \<and>
           snd (fetch_crate_owner_team env cid) = Inr v1 \<and>
           snd (fetch_crate_owner_user env cid) = Inr v2 \<and>
           snd (fetch_crate_version_downloads env cid) = Inr v3 \<and>
           snd (fetch_crate_versions env cid) = Inr v4 \<and>
           c = with_extra_keys kvs v1 v2 v3 v4"
  using assms
  by (auto simp: fetch_crates_entry_def snd_io_bind io_lift_def io_return_def with_extra_keys_def
      split: sum.splits if_splits dest!: py_setitem_InrD)

lemma entry_skip_iff:
  "snd (fetch_crates_entry env from_date entry) = Inr None \<longleftrightarrow> before_watermark env from_date entry"
  by (auto simp: fetch_crates_entry_def before_watermark_def snd_io_bind io_lift_def io_return_def
      split: sum.splits if_splits)

lemma entry_yield_complete:
  "snd (fetch_crates_entry env from_date entry) = Inr (Some c) \<Longrightarrow> complete_crate c"
  by (auto dest!: entry_yield_inversion simp: complete_with_extra_keys)

lemma entry_yield_not_before:
  "snd (fetch_crates_entry env from_date entry) = Inr (Some c) \<Longrightarrow>
     \<not> before_watermark env from_date entry"
  by (auto dest!: entry_yield_inversion simp: before_watermark_def)

lemma entry_sub_fetch_raises:
  assumes "py_getitem entry ''updated_at'' = Inr u" and "str_to_datetime env u = Inr d"
    and "instant from_date \<le> instant d" and "py_getitem entry ''id'' = Inr cid"
    and "snd (fetch_crate_data env cid) = Inl e \<or>
         snd (fetch_crate_data env cid) = Inr c0 \<and> snd (fetch_crate_owner_team env cid) = Inl e \<or>
         snd (fetch_crate_data env cid) = Inr (JObj kvs) \<and>
         snd (fetch_crate_owner_team env cid) = Inr v1 \<and>
         (snd (fetch_crate_owner_user env cid) = Inl e \<or>
          snd (fetch_crate_owner_user env cid) = Inr v2 \<and>
          (snd (fetch_crate_version_downloads env cid) = Inl e \<or>
           snd (fetch_crate_version_downloads env cid) = Inr v3 \<and>
           snd (fetch_crate_versions env cid) = Inl e))"
  shows "snd (fetch_crates_entry env from_date entry) = Inl e"
  using assms
  by (auto simp: fetch_crates_entry_def snd_io_bind io_lift_def)

text \<open>
  The requests of an entry are the request for the detail and then those of the four
  sub-fetches of attributes, or a prefix of them when a step raises.
\<close>

lemma sub_requests_split:
  "sub_requests env cid = fst (crate env cid) @ attribute_requests env cid"
  by (simp add: sub_requests_def attribute_requests_def crate_def crate_attribute_def
      client_fetch_def)

lemma length_attribute_requests: "length (attribute_requests env cid) = 4"
  by (simp add: attribute_requests_def crate_attribute_def client_fetch_def)

lemma entry_trace_prefix:
  assumes "py_getitem entry ''updated_at'' = Inr u" and "str_to_datetime env u = Inr d"
    and "instant from_date \<le> instant d" and "py_getitem entry ''id'' = Inr cid"
  shows "prefix (fst (fetch_crates_entry env from_date entry)) (sub_requests env cid)"
  using assms
  by (simp add: fetch_crates_entry_def fst_io_bind snd_io_bind fst_sub_fetch sub_requests_def
      io_lift_def io_return_def split: sum.split)

lemma entry_not_skipped:
  assumes "py_getitem entry ''updated_at'' = Inr u" and "str_to_datetime env u = Inr d"
    and "instant from_date \<le> instant d"
  shows "snd (fetch_crates_entry env from_date entry) \<noteq> Inr None"
  using assms by (simp add: entry_skip_iff before_watermark_def)

lemma entry_yield_trace:
  assumes "snd (fetch_crates_entry env from_date entry) = Inr (Some c)"
  shows "\<exists>cid. py_getitem entry ''id'' = Inr cid \<and>
               fst (fetch_crates_entry env from_date entry) = sub_requests env cid"
proof -
  from assms obtain u d cid kvs v1 v2 v3 v4 where
    "py_getitem entry ''updated_at'' = Inr u" "str_to_datetime env u = Inr d"
    "instant from_date \<le> instant d" "py_getitem entry ''id'' = Inr cid"
    "snd (fetch_crate_data env cid) = Inr (JObj kvs)"
    "snd (fetch_crate_owner_team env cid) = Inr v1"
    "snd (fetch_crate_owner_user env cid) = Inr v2"
    "snd (fetch_crate_version_downloads env cid) = Inr v3"
    "snd (fetch_crate_versions env cid) = Inr v4"
    using entry_yield_inversion by blast
  then have "fetch_crates_entry env from_date entry =
      (sub_requests env cid, Inr (Some (with_extra_keys kvs v1 v2 v3 v4)))"
    by (rule entry_fetched)
  with \<open>py_getitem entry ''id'' = Inr cid\<close> show ?thesis by auto
qed

subsection \<open>The entries of one page\<close>

lemma page_cons_skipped:
  assumes "fetch_crates_entry env from_date entry = ([], Inr None)"
  shows "fetch_crates_page env from_date (entry # rest) = fetch_crates_page env from_date rest"
  using assms by (simp add: run_prepend_def)

lemma page_outcome: "outcome (fetch_crates_page env from_date es) \<noteq> Suspended"
  by (induction es) (auto simp: run_prepend_def split: sum.splits option.splits prod.splits)

lemma page_yield_origin:
  "c \<in> set (yielded (fetch_crates_page env from_date es)) \<Longrightarrow>
     \<exists>entry \<in> set es. snd (fetch_crates_entry env from_date entry) = Inr (Some c)"
  by (induction es) (auto simp: run_prepend_def split: sum.splits option.splits prod.splits)

lemma page_append:
  "outcome (fetch_crates_page env from_date pre) = Returned \<Longrightarrow>
     fetch_crates_page env from_date (pre @ rest) =
       run_prepend (trace (fetch_crates_page env from_date pre))
         (yielded (fetch_crates_page env from_date pre)) (fetch_crates_page env from_date rest)"
  by (induction pre) (auto simp: run_prepend_def split: sum.splits option.splits prod.splits)

lemma page_entry_raises:
  assumes "outcome (fetch_crates_page env from_date pre) = Returned"
    and "snd (fetch_crates_entry env from_date entry) = Inl e"
  shows "fetch_crates_page env from_date (pre @ entry # post) =
           \<lparr>trace = trace (fetch_crates_page env from_date pre) @
                      fst (fetch_crates_entry env from_date entry),
            yielded = yielded (fetch_crates_page env from_date pre), outcome = Raised e\<rparr>"
  using assms
  by (cases "fetch_crates_entry env from_date entry") (simp add: page_append run_prepend_def)

lemma page_order:
  "prefix (map (\<lambda>c. [c]) (yielded (fetch_crates_page env from_date es)))
     (map (entry_record env from_date) (filter (\<lambda>e. \<not> before_watermark env from_date e) es)) \<and>
   (outcome (fetch_crates_page env from_date es) = Returned \<longrightarrow>
      map (\<lambda>c. [c]) (yielded (fetch_crates_page env from_date es)) =
        map (entry_record env from_date) (filter (\<lambda>e. \<not> before_watermark env from_date e) es))"
proof (induction es)
  case Nil
  show ?case by simp
next
  case (Cons entry es)
  obtain tr r where e: "fetch_crates_entry env from_date entry = (tr, r)"
    by (cases "fetch_crates_entry env from_date entry")
  show ?case
  proof (cases r)
    case (Inl err)
    with e show ?thesis by simp
  next
    case (Inr res)
    show ?thesis
    proof (cases res)
      case None
      with e Inr have "before_watermark env from_date entry"
        by (simp add: entry_skip_iff [symmetric])
      with e Inr None Cons.IH show ?thesis by (simp add: run_prepend_def)
    next
      case (Some c)
      with e Inr have "\<not> before_watermark env from_date entry"
        by (intro entry_yield_not_before [of _ _ _ c]) simp
      moreover from e Inr Some have "entry_record env from_date entry = [c]"
        by (simp add: entry_record_def)
      ultimately show ?thesis using e Inr Some Cons.IH by (simp add: run_prepend_def)
    qed
  qed
qed

subsection \<open>The loop over the pages\<close>

lemma loop_step_returned:
  assumes "client_items_next env path st = (tr, Inr (Yield raw st'))"
    and "page_entries env raw = Inr es"
    and "outcome (fetch_crates_page env from_date es) = Returned"
  shows "fetch_crates_loop (Suc fuel) env from_date path st =
           run_prepend (tr @ trace (fetch_crates_page env from_date es))
             (yielded (fetch_crates_page env from_date es))
             (fetch_crates_loop fuel env from_date path st')"
  using assms by (simp add: Let_def)

lemma loop_step_raised:
  assumes "client_items_next env path st = (tr, Inr (Yield raw st'))"
    and "page_entries env raw = Inr es"
    and "outcome (fetch_crates_page env from_date es) = Raised e"
  shows "fetch_crates_loop (Suc fuel) env from_date path st =
           run_prepend tr [] (fetch_crates_page env from_date es)"
  using assms by (simp add: Let_def)

lemma loop_step_stop:
  assumes "client_items_next env path st = (tr, Inr Stop)"
  shows "fetch_crates_loop (Suc fuel) env from_date path st =
           \<lparr>trace = tr, yielded = [], outcome = Returned\<rparr>"
  using assms by simp

lemma loop_yield_origin:
  "c \<in> set (yielded (fetch_crates_loop fuel env from_date path st)) \<Longrightarrow>
     \<exists>p raw entries entry.
       http_fetch env path (Some (page_payload p)) = Inr raw \<and>
       page_entries env raw = Inr entries \<and> entry \<in> set entries \<and>
       snd (fetch_crates_entry env from_date entry) = Inr (Some c)"
proof (induction fuel arbitrary: st)
  case 0
  then show ?case by simp
next
  case (Suc fuel)
  obtain tr r where nx: "client_items_next env path st = (tr, r)"
    by (cases "client_items_next env path st")
  show ?case
  proof (cases r)
    case (Inl e)
    with nx Suc.prems show ?thesis by simp
  next
    case (Inr step)
    show ?thesis
    proof (cases step)
      case Stop
      with nx Inr Suc.prems show ?thesis by simp
    next
      case (Yield raw st')
      with nx Inr have nxt: "client_items_next env path st = (tr, Inr (Yield raw st'))" by simp
      then obtain p where served: "http_fetch env path (Some (page_payload p)) = Inr raw"
        using items_next_yield_served by blast
      show ?thesis
      proof (cases "page_entries env raw")
        case (Inl e)
        with nxt Suc.prems show ?thesis by simp
      next
        case (Inr es)
        let ?r = "fetch_crates_page env from_date es"
        from Suc.prems nxt Inr have
          "c \<in> set (yielded ?r) \<or> c \<in> set (yielded (fetch_crates_loop fuel env from_date path st'))"
          by (auto simp: Let_def run_prepend_def split: status.splits)
        then show ?thesis
        proof
          assume "c \<in> set (yielded ?r)"
          then obtain entry where "entry \<in> set es"
            and "snd (fetch_crates_entry env from_date entry) = Inr (Some c)"
            using page_yield_origin by blast
          with served Inr show ?thesis by blast
        next
          assume "c \<in> set (yielded (fetch_crates_loop fuel env from_date path st'))"
          then show ?thesis by (rule Suc.IH)
        qed
      qed
    qed
  qed
qed

lemma loop_yield_complete:
  "c \<in> set (yielded (fetch_crates_loop fuel env from_date path st)) \<Longrightarrow> complete_crate c"
  by (auto dest!: loop_yield_origin entry_yield_complete)

lemma loop_order:
  "prefix (map (\<lambda>c. [c]) (yielded (fetch_crates_loop fuel env from_date path st)))
     (concat (map (page_records env from_date) (yielded (client_fetch_items fuel env path st)))) \<and>
   (outcome (fetch_crates_loop fuel env from_date path st) = Returned \<longrightarrow>
      outcome (client_fetch_items fuel env path st) = Returned \<and>
      map (\<lambda>c. [c]) (yielded (fetch_crates_loop fuel env from_date path st)) =
        concat (map (page_records env from_date) (yielded (client_fetch_items fuel env path st))))"
proof (induction fuel arbitrary: st)
  case 0
  show ?case by simp
next
  case (Suc fuel)
  obtain tr r where nx: "client_items_next env path st = (tr, r)"
    by (cases "client_items_next env path st")
  show ?case
  proof (cases r)
    case (Inl e)
    with nx show ?thesis by simp
  next
    case (Inr step)
    show ?thesis
    proof (cases step)
      case Stop
      with nx Inr show ?thesis by simp
    next
      case (Yield raw st')
      with nx Inr have nxt: "client_items_next env path st = (tr, Inr (Yield raw st'))" by simp
      show ?thesis
      proof (cases "page_entries env raw")
        case (Inl e)
        with nxt show ?thesis by (simp add: run_prepend_def)
      next
        case (Inr es)
        let ?r = "fetch_crates_page env from_date es"
        from Inr have recs: "page_records env from_date raw =
            map (entry_record env from_date) (filter (\<lambda>e. \<not> before_watermark env from_date e) es)"
          by (simp add: page_records_def)
        note po = page_order [of env from_date es, folded recs]
        show ?thesis
        proof (cases "outcome ?r")
          case Returned
          with po have "map (\<lambda>c. [c]) (yielded ?r) = page_records env from_date raw" by simp
          with nxt Inr Returned Suc.IH [of st'] show ?thesis
            by (simp add: Let_def run_prepend_def)
        next
          case (Raised e)
          from po have "prefix (map (\<lambda>c. [c]) (yielded ?r)) (page_records env from_date raw)"
            by simp
          then have "prefix (map (\<lambda>c. [c]) (yielded ?r))
              (page_records env from_date raw @
               concat (map (page_records env from_date) (yielded (client_fetch_items fuel env path st'))))"
            by (rule prefix_prefix)
          with nxt Inr Raised show ?thesis
            by (simp add: Let_def run_prepend_def)
        next
          case Suspended
          with page_outcome [of env from_date es] show ?thesis by simp
        qed
      qed
    qed
  qed
qed

lemma handled_one_more:
  assumes "client_items_next env path st = (tr, Inr (Yield raw st'))"
    and "page_entries env raw = Inr es"
    and "outcome (fetch_crates_page env from_date es) = Returned"
    and "pages_handled n env from_date path st' = Some (tr', ys, st'')"
  shows "pages_handled (Suc n) env from_date path st =
           Some (tr @ trace (fetch_crates_page env from_date es) @ tr',
                 yielded (fetch_crates_page env from_date es) @ ys, st'')"
  using assms by (simp add: Let_def)

lemma loop_after_handled:
  "pages_handled n env from_date path st = Some (tr, ys, st') \<Longrightarrow>
     fetch_crates_loop (n + m) env from_date path st =
       run_prepend tr ys (fetch_crates_loop m env from_date path st')"
proof (induction n arbitrary: st tr ys)
  case 0
  then show ?case by (simp add: run_prepend_def)
next
  case (Suc n)
  from Suc.prems obtain t raw st1 es tr1 ys1 where
    nxt: "client_items_next env path st = (t, Inr (Yield raw st1))"
    and es: "page_entries env raw = Inr es"
    and ok: "outcome (fetch_crates_page env from_date es) = Returned"
    and rest: "pages_handled n env from_date path st1 = Some (tr1, ys1, st')"
    and tr: "tr = t @ trace (fetch_crates_page env from_date es) @ tr1"
    and ys: "ys = yielded (fetch_crates_page env from_date es) @ ys1"
    by (auto simp: Let_def split: prod.splits sum.splits gen_step.splits if_splits)
  from rest have "fetch_crates_loop (n + m) env from_date path st1 =
      run_prepend tr1 ys1 (fetch_crates_loop m env from_date path st')"
    by (rule Suc.IH)
  with nxt es ok tr ys show ?case
    by (simp add: Let_def run_prepend_def)
qed

lemma loop_stable:
  "outcome (fetch_crates_loop fuel env from_date path st) \<noteq> Suspended \<Longrightarrow>
     fetch_crates_loop (fuel + k) env from_date path st =
       fetch_crates_loop fuel env from_date path st"
  by (induction fuel arbitrary: st)
     (auto simp: run_prepend_def Let_def split: prod.splits sum.splits gen_step.splits
       status.splits)

subsection \<open>Categories\<close>

lemma category_crates: "map_of item ''num_downloads'' = None \<Longrightarrow> metadata_category item = CATEGORY_CRATES"
  by (simp add: metadata_category_def map_of_eq_None_iff)

lemma category_summary:
  "map_of item ''num_downloads'' = Some n \<Longrightarrow> metadata_category item = CATEGORY_SUMMARY"
  by (auto simp: metadata_category_def dest: map_of_SomeD intro: rev_image_eqI)

lemma categories_differ: "CATEGORY_SUMMARY \<noteq> CATEGORY_CRATES"
  by (simp add: CATEGORY_SUMMARY_def CATEGORY_CRATES_def)

section \<open>Facts about the recorded registry\<close>

lemma ex_http_fetch:
  "http_fetch (ex_env registry) url payload =
     (case map_of registry (url, payload) of
        None \<Rightarrow> Inl (HTTPError ''404 Not Found'') | Some raw \<Rightarrow> Inr raw)"
  by (simp add: ex_env_def)

lemma ex_urijoin_env: "urijoin (ex_env registry) = ex_urijoin"
  by (simp add: ex_env_def)

lemma ex_crates_path: "crates_path (ex_env registry) = ex_path"
  by (simp add: crates_path_def ex_urijoin_env ex_urijoin_def ex_strip_def ex_path_def
      CRATES_API_URL_def CATEGORY_CRATES_def)

lemma ex_urls:
  "urijoin (ex_env registry) [JStr CRATES_API_URL, JStr CATEGORY_CRATES, JStr [c]] = ex_path @ ''/'' @ [c]"
  "urijoin (ex_env registry) [JStr CRATES_API_URL, JStr CATEGORY_CRATES, JStr [c], JStr ''owner_team''] =
     ex_path @ ''/'' @ [c] @ ''/owner_team''"
  "urijoin (ex_env registry) [JStr CRATES_API_URL, JStr CATEGORY_CRATES, JStr [c], JStr ''owner_user''] =
     ex_path @ ''/'' @ [c] @ ''/owner_user''"
  "urijoin (ex_env registry) [JStr CRATES_API_URL, JStr CATEGORY_CRATES, JStr [c], JStr ''downloads''] =
     ex_path @ ''/'' @ [c] @ ''/downloads''"
  "urijoin (ex_env registry) [JStr CRATES_API_URL, JStr CATEGORY_CRATES, JStr [c], JStr ''versions''] =
     ex_path @ ''/'' @ [c] @ ''/versions''"
  if "c \<noteq> CHR ''/''"
  using that
  by (simp_all add: ex_urijoin_env ex_urijoin_def ex_strip_def ex_path_def
      CRATES_API_URL_def CATEGORY_CRATES_def)

lemma ex_sub_requests:
  "c \<noteq> CHR ''/'' \<Longrightarrow> sub_requests (ex_env registry) (JStr [c]) = map fst (ex_crate [c] detail)"
  by (simp add: sub_requests_def ex_urls ex_crate_def)

lemma ex_loads:
  "json_loads (ex_env registry) ex_page1 =
     Inr (JObj [(''crates'', JArr [ex_entry_a, ex_entry_b]), (''meta'', JObj [(''total'', JInt 3)])])"
  "json_loads (ex_env registry) ex_page2 =
     Inr (JObj [(''crates'', JArr [ex_entry_c]), (''meta'', JObj [(''total'', JInt 3)])])"
  "json_loads (ex_env registry) ex_sparse1 =
     Inr (JObj [(''crates'', JArr []), (''meta'', JObj [(''total'', JInt 1)])])"
  "json_loads (ex_env registry) ex_sparse2 =
     Inr (JObj [(''crates'', JArr [ex_entry_c]), (''meta'', JObj [(''total'', JInt 1)])])"
  "json_loads (ex_env registry) ex_void =
     Inr (JObj [(''crates'', JArr []), (''meta'', JObj [(''total'', JInt 0)])])"
  "json_loads (ex_env registry) ex_detail_a = Inr (JObj [(''crate'', ex_entry_a)])"
  "json_loads (ex_env registry) ex_detail_c = Inr (JObj [(''crate'', ex_entry_c)])"
  "json_loads (ex_env registry) ex_detail_c_stale = Inr (JObj [(''crate'', ex_stale_c)])"
  "json_loads (ex_env registry) ex_teams = Inr (JObj [(''teams'', JArr [])])"
  "json_loads (ex_env registry) ex_users = Inr (JObj [(''users'', JArr [])])"
  "json_loads (ex_env registry) ex_downloads = Inr (JObj [(''version_downloads'', JArr [])])"
  "json_loads (ex_env registry) ex_versions = Inr (JObj [(''versions'', JArr [])])"
  "json_loads (ex_env registry) ex_summary_doc = Inr (JObj [(''num_downloads'', JInt 5)])"
  by (simp_all add: ex_env_def ex_json_loads_def ex_documents_def ex_page1_def ex_page2_def
      ex_sparse1_def ex_sparse2_def ex_void_def ex_detail_a_def ex_detail_c_def
      ex_detail_c_stale_def ex_teams_def ex_users_def ex_downloads_def ex_versions_def
      ex_summary_doc_def)

lemma ex_dates_parsed:
  "str_to_datetime (ex_env registry) (JStr ''2020-01-01'') = Inr (Datetime 1577836800000000)"
  "str_to_datetime (ex_env registry) (JStr ''2010-01-01'') = Inr (Datetime 1262304000000000)"
  "str_to_datetime (ex_env registry) (JStr ''2021-06-01'') = Inr (Datetime 1622505600000000)"
  "str_to_datetime (ex_env registry) (JStr ''2020-01-01T00:00:00+00:00'') = Inr (Datetime 1577836800000000)"
  "str_to_datetime (ex_env registry) (JStr ''2021-06-01T00:00:00+00:00'') = Inr (Datetime 1622505600000000)"
  by (simp_all add: ex_env_def ex_dates_def)

lemma ex_default_datetime:
  "DEFAULT_DATETIME (ex_env registry) = Datetime 0"
  "datetime_to_utc (ex_env registry) (PyDatetime d) = Inr d"
  by (simp_all add: ex_env_def)

lemma ex_page_lens:
  "page_len (ex_env registry) ex_page1 = Inr 2"
  "page_len (ex_env registry) ex_page2 = Inr 1"
  "page_len (ex_env registry) ex_sparse1 = Inr 0"
  "page_len (ex_env registry) ex_sparse2 = Inr 1"
  "page_len (ex_env registry) ex_void = Inr 0"
  by (simp_all add: page_len_def ex_loads)

lemma ex_page_totals:
  "page_total (ex_env registry) ex_page1 = Inr (JInt 3)"
  "page_total (ex_env registry) ex_sparse1 = Inr (JInt 1)"
  "page_total (ex_env registry) ex_void = Inr (JInt 0)"
  by (simp_all add: page_total_def ex_loads)

lemma ex_page_entries:
  "page_entries (ex_env registry) ex_page1 = Inr [ex_entry_a, ex_entry_b]"
  "page_entries (ex_env registry) ex_page2 = Inr [ex_entry_c]"
  by (simp_all add: page_entries_def ex_loads)

lemma ex_page_distinct: "page_request ex_path 1 \<noteq> page_request ex_path 2"
  by (simp add: page_request_def page_payload_def)

lemma ex_listing_served:
  "http_fetch (ex_env (ex_listing @ rest)) ex_path (Some (page_payload 1)) = Inr ex_page1"
  "http_fetch (ex_env (ex_listing @ rest)) ex_path (Some (page_payload 2)) = Inr ex_page2"
  using ex_page_distinct by (simp_all add: ex_http_fetch ex_listing_def page_request_def)

lemma ex_sparse_served:
  "http_fetch (ex_env ex_sparse) ex_path (Some (page_payload 1)) = Inr ex_sparse1"
  "http_fetch (ex_env ex_sparse) ex_path (Some (page_payload 2)) = Inr ex_sparse2"
  using ex_page_distinct by (simp_all add: ex_http_fetch ex_sparse_def page_request_def)

lemma ex_void_served:
  "http_fetch (ex_env ex_void_registry) ex_path (Some (page_payload 1)) = Inr ex_void"
  by (simp add: ex_http_fetch ex_void_registry_def page_request_def)

lemmas ex_sub_fetch_defs =
  fetch_crate_data_def fetch_crate_owner_team_def fetch_crate_owner_user_def
  fetch_crate_version_downloads_def fetch_crate_versions_def crate_def crate_attribute_def
  client_fetch_def snd_io_bind io_lift_def ex_http_fetch ex_listing_def ex_crate_def
  page_request_def ex_path_def ex_loads

lemma ex_crate_a:
  "snd (fetch_crate_data (ex_env (ex_listing @ ex_crate ''a'' ex_detail_a @ rest)) (JStr ''a'')) =
     Inr ex_entry_a"
  "snd (fetch_crate_owner_team (ex_env (ex_listing @ ex_crate ''a'' ex_detail_a @ rest)) (JStr ''a'')) =
     Inr (JObj [(''teams'', JArr [])])"
  "snd (fetch_crate_owner_user (ex_env (ex_listing @ ex_crate ''a'' ex_detail_a @ rest)) (JStr ''a'')) =
     Inr (JObj [(''users'', JArr [])])"
  "snd (fetch_crate_version_downloads (ex_env (ex_listing @ ex_crate ''a'' ex_detail_a @ rest))
       (JStr ''a'')) = Inr (JObj [(''version_downloads'', JArr [])])"
  "snd (fetch_crate_versions (ex_env (ex_listing @ ex_crate ''a'' ex_detail_a @ rest)) (JStr ''a'')) =
     Inr (JObj [(''versions'', JArr [])])"
  by (simp_all add: ex_urls [of "CHR ''a''", simplified] ex_sub_fetch_defs)

lemma ex_crate_c:
  "snd (fetch_crate_data
         (ex_env (ex_listing @ ex_crate ''a'' ex_detail_a @ ex_crate ''c'' detail)) (JStr ''c'')) =
     (case json_loads (ex_env []) detail of Inl e \<Rightarrow> Inl e | Inr v \<Rightarrow> py_getitem v ''crate'')"
  "snd (fetch_crate_owner_team
         (ex_env (ex_listing @ ex_crate ''a'' ex_detail_a @ ex_crate ''c'' detail)) (JStr ''c'')) =
     Inr (JObj [(''teams'', JArr [])])"
  "snd (fetch_crate_owner_user
         (ex_env (ex_listing @ ex_crate ''a'' ex_detail_a @ ex_crate ''c'' detail)) (JStr ''c'')) =
     Inr (JObj [(''users'', JArr [])])"
  "snd (fetch_crate_version_downloads
         (ex_env (ex_listing @ ex_crate ''a'' ex_detail_a @ ex_crate ''c'' detail)) (JStr ''c'')) =
     Inr (JObj [(''version_downloads'', JArr [])])"
  "snd (fetch_crate_versions
         (ex_env (ex_listing @ ex_crate ''a'' ex_detail_a @ ex_crate ''c'' detail)) (JStr ''c'')) =
     Inr (JObj [(''versions'', JArr [])])"
  by (simp_all add: ex_urls [of "CHR ''c''", simplified] ex_sub_fetch_defs)
     (simp add: ex_env_def split: sum.split)

lemma ex_crate_c_broken:
  "snd (fetch_crate_data (ex_env ex_registry_broken) (JStr ''c'')) = Inr ex_entry_c"
  "snd (fetch_crate_owner_team (ex_env ex_registry_broken) (JStr ''c'')) =
     Inr (JObj [(''teams'', JArr [])])"
  "snd (fetch_crate_owner_user (ex_env ex_registry_broken) (JStr ''c'')) =
     Inr (JObj [(''users'', JArr [])])"
  "snd (fetch_crate_version_downloads (ex_env ex_registry_broken) (JStr ''c'')) =
     Inr (JObj [(''version_downloads'', JArr [])])"
  "snd (fetch_crate_versions (ex_env ex_registry_broken) (JStr ''c'')) =
     Inl (HTTPError ''404 Not Found'')"
  by (simp_all add: ex_urls [of "CHR ''c''", simplified] ex_sub_fetch_defs ex_registry_broken_def)

lemma ex_entry_a_fetched:
  assumes "instant from_date \<le> 1577836800000000"
  shows "fetch_crates_entry (ex_env (ex_listing @ ex_crate ''a'' ex_detail_a @ rest)) from_date
           ex_entry_a = (map fst (ex_crate ''a'' ex_detail_a), Inr (Some ex_record_a))"
proof -
  let ?env = "ex_env (ex_listing @ ex_crate ''a'' ex_detail_a @ rest)"
  have "fetch_crates_entry ?env from_date ex_entry_a =
      (sub_requests ?env (JStr ''a''),
       Inr (Some (with_extra_keys [(''id'', JStr ''a''), (''updated_at'', JStr ''2020-01-01'')]
         (JObj [(''teams'', JArr [])]) (JObj [(''users'', JArr [])])
         (JObj [(''version_downloads'', JArr [])]) (JObj [(''versions'', JArr [])]))))"
    by (rule entry_fetched [where u = "JStr ''2020-01-01''" and d = "Datetime 1577836800000000"])
       (simp_all add: assms ex_dates_parsed ex_crate_a [unfolded ex_entry_a_def] ex_entry_a_def)
  then show ?thesis
    by (simp add: ex_sub_requests [of _ _ ex_detail_a] ex_record_a_def ex_record_def)
qed

lemma ex_entry_b_skipped:
  "fetch_crates_entry (ex_env registry) ex_from_date ex_entry_b = ([], Inr None)"
  by (rule entry_skipped [where u = "JStr ''2010-01-01''" and d = "Datetime 1262304000000000"])
     (simp_all add: ex_dates_parsed ex_entry_b_def ex_from_date_def)

lemma ex_entry_c_fetched:
  assumes "json_loads (ex_env []) detail = Inr (JObj [(''crate'', JObj kvs)])"
    and "instant from_date \<le> 1622505600000000"
  shows "fetch_crates_entry
           (ex_env (ex_listing @ ex_crate ''a'' ex_detail_a @ ex_crate ''c'' detail)) from_date
           ex_entry_c = (map fst (ex_crate ''c'' detail), Inr (Some (ex_record kvs)))"
proof -
  let ?env = "ex_env (ex_listing @ ex_crate ''a'' ex_detail_a @ ex_crate ''c'' detail)"
  have "fetch_crates_entry ?env from_date ex_entry_c =
      (sub_requests ?env (JStr ''c''),
       Inr (Some (with_extra_keys kvs
         (JObj [(''teams'', JArr [])]) (JObj [(''users'', JArr [])])
         (JObj [(''version_downloads'', JArr [])]) (JObj [(''versions'', JArr [])]))))"
    by (rule entry_fetched [where u = "JStr ''2021-06-01''" and d = "Datetime 1622505600000000"])
       (simp_all add: assms ex_dates_parsed ex_crate_c ex_entry_c_def)
  then show ?thesis
    by (simp add: ex_sub_requests [of _ _ detail] ex_record_def)
qed

lemma ex_first_page:
  "client_items_next (ex_env (ex_listing @ rest)) ex_path (client_items_init 1) =
     ([page_request ex_path 1],
      Inr (Yield ex_page1 \<lparr>pc = AtYield, page = 1, parsed_crates = 2, total_crates = JInt 3\<rparr>))"
  by (rule items_next_first) (simp_all add: ex_listing_served ex_page_lens ex_page_totals)

lemma ex_second_page:
  "client_items_next (ex_env (ex_listing @ rest)) ex_path
       \<lparr>pc = AtYield, page = 1, parsed_crates = 2, total_crates = JInt 3\<rparr> =
     ([page_request ex_path 2],
      Inr (Yield ex_page2 \<lparr>pc = AtYield, page = 2, parsed_crates = 3, total_crates = JInt 3\<rparr>))"
  using items_next_more [of 2 3 "ex_env (ex_listing @ rest)" ex_path 1 ex_page2 1]
  by (simp add: ex_listing_served ex_page_lens)

lemma ex_no_third_page:
  "client_items_next env ex_path
       \<lparr>pc = AtYield, page = 2, parsed_crates = 3, total_crates = JInt 3\<rparr> = ([], Inr Stop)"
  by (rule items_next_stop) simp

lemma ex_pages_run:
  "client_fetch_items 3 (ex_env (ex_listing @ rest)) ex_path (client_items_init 1) =
     \<lparr>trace = [page_request ex_path 1, page_request ex_path 2],
      yielded = [ex_page1, ex_page2], outcome = Returned\<rparr>"
  by (simp add: numeral_3_eq_3 ex_first_page ex_second_page ex_no_third_page run_prepend_def)

lemma ex_page1_run:
  "fetch_crates_page (ex_env (ex_listing @ ex_crate ''a'' ex_detail_a @ rest)) ex_from_date
       [ex_entry_a, ex_entry_b] =
     \<lparr>trace = map fst (ex_crate ''a'' ex_detail_a), yielded = [ex_record_a], outcome = Returned\<rparr>"
proof -
  have "fetch_crates_entry (ex_env (ex_listing @ ex_crate ''a'' ex_detail_a @ rest)) ex_from_date
      ex_entry_a = (map fst (ex_crate ''a'' ex_detail_a), Inr (Some ex_record_a))"
    by (rule ex_entry_a_fetched) (simp add: ex_from_date_def)
  then show ?thesis
    by (simp add: ex_entry_b_skipped run_prepend_def)
qed

lemma ex_crates_run:
  assumes "json_loads (ex_env []) detail = Inr (JObj [(''crate'', JObj kvs)])"
  shows "fetch_crates 3 (ex_env (ex_listing @ ex_crate ''a'' ex_detail_a @ ex_crate ''c'' detail))
           (PyDatetime ex_from_date) =
         \<lparr>trace = page_request ex_path 1 # map fst (ex_crate ''a'' ex_detail_a) @
                  page_request ex_path 2 # map fst (ex_crate ''c'' detail),
          yielded = [ex_record_a, ex_record kvs], outcome = Returned\<rparr>"
proof -
  let ?env = "ex_env (ex_listing @ ex_crate ''a'' ex_detail_a @ ex_crate ''c'' detail)"
  have c: "fetch_crates_entry ?env ex_from_date ex_entry_c =
      (map fst (ex_crate ''c'' detail), Inr (Some (ex_record kvs)))"
    using assms by (rule ex_entry_c_fetched) (simp add: ex_from_date_def)
  have page1: "fetch_crates_page ?env ex_from_date [ex_entry_a, ex_entry_b] =
      \<lparr>trace = map fst (ex_crate ''a'' ex_detail_a), yielded = [ex_record_a], outcome = Returned\<rparr>"
    by (rule ex_page1_run)
  have page2: "fetch_crates_page ?env ex_from_date [ex_entry_c] =
      \<lparr>trace = map fst (ex_crate ''c'' detail), yielded = [ex_record kvs], outcome = Returned\<rparr>"
    by (simp add: c run_prepend_def)
  have "fetch_crates_loop (Suc (Suc (Suc 0))) ?env ex_from_date ex_path (client_items_init 1) =
      \<lparr>trace = page_request ex_path 1 # map fst (ex_crate ''a'' ex_detail_a) @
               page_request ex_path 2 # map fst (ex_crate ''c'' detail),
       yielded = [ex_record_a, ex_record kvs], outcome = Returned\<rparr>"
  proof -
    have r1: "outcome (fetch_crates_page ?env ex_from_date [ex_entry_a, ex_entry_b]) = Returned"
      unfolding page1 by simp
    have r2: "outcome (fetch_crates_page ?env ex_from_date [ex_entry_c]) = Returned"
      unfolding page2 by simp
    note step1 = loop_step_returned [OF ex_first_page ex_page_entries(1) r1]
    note step2 = loop_step_returned [OF ex_second_page ex_page_entries(2) r2]
    note step3 = loop_step_stop [OF ex_no_third_page]
    show ?thesis
      unfolding step1 step2 step3 page1 page2 by (simp add: run_prepend_def)
  qed
  then show ?thesis
    by (simp add: fetch_crates_def ex_default_datetime ex_crates_path numeral_3_eq_3)
qed

section \<open>Properties of the backend\<close>

subsection \<open>Pagination\<close>

text \<open>
  C1. Let the registry serve a sequence of pages, numbered from 1, such that the lengths of
  their \<^verbatim>\<open>crates\<close> arrays add up to the \<^verbatim>\<open>meta.total\<close> of the first page at the
  last page of the sequence and not before. Then the page generator, started at page 1 and
  asked for all its items, sends one request per page, yields exactly these raw pages in
  page order, and returns. \<^verbatim>\<open>CratesClient.crates\<close> is this generator on the path of
  the listing.
\<close>

theorem pagination_stops_at_total:
  assumes ne: "pages \<noteq> []" and len: "length lens = length pages"
    and served: "\<forall>i<length pages.
        http_fetch env path (Some (page_payload (1 + int i))) = Inr (pages ! i)"
    and lens: "\<forall>i<length pages. page_len env (pages ! i) = Inr (lens ! i)"
    and total: "page_total env (pages ! 0) = Inr (JInt T)"
    and before: "\<forall>j. 0 < j \<and> j < length pages \<longrightarrow> sum_list (take j lens) < T"
    and reach: "T \<le> sum_list lens"
    and fuel: "length pages < fuel"
  shows "client_fetch_items fuel env path (client_items_init 1) =
           \<lparr>trace = map (\<lambda>i. page_request path (1 + int i)) [0..<length pages],
            yielded = pages, outcome = Returned\<rparr>"
proof -
  from ne len obtain raw rest n ns where pages: "pages = raw # rest" and lens_eq: "lens = n # ns"
    and ln: "length ns = length rest"
    by (cases pages; cases lens) auto
  from fuel pages obtain fuel' where fuel_eq: "fuel = Suc fuel'" and fuel': "length rest < fuel'"
    by (cases fuel) auto
  from served pages have raw: "http_fetch env path (Some (page_payload 1)) = Inr raw"
    by fastforce
  from lens pages lens_eq have n: "page_len env raw = Inr n" by fastforce
  then have n0: "0 \<le> n" by (rule page_len_nonneg)
  from total pages have t: "page_total env raw = Inr (JInt T)" by simp
  have first: "client_items_next env path (client_items_init 1) =
      ([page_request path 1],
       Inr (Yield raw \<lparr>pc = AtYield, page = 1, parsed_crates = n, total_crates = JInt T\<rparr>))"
    using raw n t by (rule items_next_first)
  have served': "\<forall>i<length rest.
      http_fetch env path (Some (page_payload (1 + 1 + int i))) = Inr (rest ! i)"
  proof (intro allI impI)
    fix i assume "i < length rest"
    then have "Suc i < length pages" by (simp add: pages)
    with served have
      "http_fetch env path (Some (page_payload (1 + int (Suc i)))) = Inr (pages ! Suc i)"
      by blast
    then show "http_fetch env path (Some (page_payload (1 + 1 + int i))) = Inr (rest ! i)"
      by (simp add: pages add.commute)
  qed
  have lens': "\<forall>i<length rest. page_len env (rest ! i) = Inr (ns ! i)"
  proof (intro allI impI)
    fix i assume "i < length rest"
    then have "Suc i < length pages" by (simp add: pages)
    with lens have "page_len env (pages ! Suc i) = Inr (lens ! Suc i)" by blast
    then show "page_len env (rest ! i) = Inr (ns ! i)" by (simp add: pages lens_eq)
  qed
  have before': "\<forall>j<length rest. n + sum_list (take j ns) < T"
  proof (intro allI impI)
    fix j assume "j < length rest"
    then have "0 < Suc j \<and> Suc j < length pages" by (simp add: pages)
    with before have "sum_list (take (Suc j) lens) < T" by blast
    then show "n + sum_list (take j ns) < T" by (simp add: lens_eq)
  qed
  from reach have reach': "T \<le> n + sum_list ns" by (simp add: lens_eq)
  have rest_run: "client_fetch_items fuel' env path
      \<lparr>pc = AtYield, page = 1, parsed_crates = n, total_crates = JInt T\<rparr> =
      \<lparr>trace = map (\<lambda>i. page_request path (1 + 1 + int i)) [0..<length rest],
       yielded = rest, outcome = Returned\<rparr>"
    using ln served' lens' before' reach' n0 fuel' by (rule items_resume)
  have idx: "map (\<lambda>i. page_request path (1 + int i)) [0..<length pages] =
      page_request path 1 # map (\<lambda>i. page_request path (1 + 1 + int i)) [0..<length rest]"
    by (simp add: pages upt_conv_Cons map_Suc_upt [symmetric] add.commute del: upt_Suc)
  show ?thesis
    unfolding fuel_eq idx by (simp add: first rest_run run_prepend_def pages)
qed

theorem pagination_stops_at_total_witness:
  "crates 3 (ex_env ex_registry) 1 =
     \<lparr>trace = [page_request ex_path 1, page_request ex_path 2],
      yielded = [ex_page1, ex_page2], outcome = Returned\<rparr>"
proof -
  let ?pages = "[ex_page1, ex_page2]" and ?lens = "[2, 1 :: int]"
  let ?env = "ex_env ex_registry"
  have served: "\<forall>i<length ?pages.
      http_fetch ?env ex_path (Some (page_payload (1 + int i))) = Inr (?pages ! i)"
    by (auto simp: less_Suc_eq ex_listing_served ex_registry_def)
  have lens: "\<forall>i<length ?pages. page_len ?env (?pages ! i) = Inr (?lens ! i)"
    by (auto simp: less_Suc_eq ex_page_lens)
  have total: "page_total ?env (?pages ! 0) = Inr (JInt 3)"
    by (simp add: ex_page_totals)
  have before: "\<forall>j. 0 < j \<and> j < length ?pages \<longrightarrow> sum_list (take j ?lens) < 3"
    by (auto simp: less_Suc_eq)
  have "client_fetch_items 3 ?env ex_path (client_items_init 1) =
     \<lparr>trace = map (\<lambda>i. page_request ex_path (1 + int i)) [0..<length ?pages],
      yielded = ?pages, outcome = Returned\<rparr>"
    using served lens total before
    by (intro pagination_stops_at_total [where lens = ?lens and T = 3]) simp_all
  then show ?thesis by (simp add: crates_def ex_crates_path upt_conv_Cons del: upt_Suc)
qed

subsection \<open>The watermark filter\<close>

text \<open>
  C2. An entry of a page whose \<^verbatim>\<open>updated_at\<close> is before the watermark sends no request
  and adds no record to what the page yields. An entry whose \<^verbatim>\<open>updated_at\<close> is at or
  after the watermark is never skipped: after the request for the detail of the crate it
  makes the sub-fetches of the four attributes (team owners, user owners, downloads,
  versions) in this order, as far as none raises, and no other request. When the detail
  and these sub-fetches succeed, exactly the four sub-fetches occur and exactly one record
  is yielded, which has the four keys \<^verbatim>\<open>owner_team_data\<close>, \<^verbatim>\<open>owner_user_data\<close>,
  \<^verbatim>\<open>version_downloads_data\<close> and \<^verbatim>\<open>versions_data\<close>; and whenever a record is yielded,
  exactly these four sub-fetches have occurred and the record has the four keys.
\<close>

theorem watermark_filter:
  assumes "py_getitem entry ''updated_at'' = Inr u" and "str_to_datetime env u = Inr d"
  shows "(instant d < instant from_date \<longrightarrow>
            fetch_crates_entry env from_date entry = ([], Inr None) \<and>
            fetch_crates_page env from_date (entry # rest) = fetch_crates_page env from_date rest) \<and>
         (instant from_date \<le> instant d \<longrightarrow>
            snd (fetch_crates_entry env from_date entry) \<noteq> Inr None) \<and>
         (instant from_date \<le> instant d \<and> py_getitem entry ''id'' = Inr cid \<longrightarrow>
            prefix (fst (fetch_crates_entry env from_date entry))
              (fst (crate env cid) @ attribute_requests env cid) \<and>
            length (attribute_requests env cid) = 4) \<and>
         (instant from_date \<le> instant d \<and> py_getitem entry ''id'' = Inr cid \<and>
          snd (fetch_crate_data env cid) = Inr (JObj kvs) \<and>
          snd (fetch_crate_owner_team env cid) = Inr v1 \<and>
          snd (fetch_crate_owner_user env cid) = Inr v2 \<and>
          snd (fetch_crate_version_downloads env cid) = Inr v3 \<and>
          snd (fetch_crate_versions env cid) = Inr v4 \<longrightarrow>
            fetch_crates_entry env from_date entry =
              (fst (crate env cid) @ attribute_requests env cid,
               Inr (Some (with_extra_keys kvs v1 v2 v3 v4))) \<and>
            complete_crate (with_extra_keys kvs v1 v2 v3 v4) \<and>
            fetch_crates_page env from_date (entry # rest) =
              run_prepend (fst (crate env cid) @ attribute_requests env cid)
                [with_extra_keys kvs v1 v2 v3 v4] (fetch_crates_page env from_date rest)) \<and>
         (snd (fetch_crates_entry env from_date entry) = Inr (Some c) \<longrightarrow>
            complete_crate c \<and>
            (\<exists>crate_id. py_getitem entry ''id'' = Inr crate_id \<and>
               fst (fetch_crates_entry env from_date entry) =
                 fst (crate env crate_id) @ attribute_requests env crate_id))"
proof (intro conjI impI)
  assume "instant d < instant from_date"
  with assms show skip: "fetch_crates_entry env from_date entry = ([], Inr None)"
    by (rule entry_skipped)
  then show "fetch_crates_page env from_date (entry # rest) = fetch_crates_page env from_date rest"
    by (rule page_cons_skipped)
next
  assume "instant from_date \<le> instant d"
  with assms show "snd (fetch_crates_entry env from_date entry) \<noteq> Inr None"
    by (rule entry_not_skipped)
next
  assume "instant from_date \<le> instant d \<and> py_getitem entry ''id'' = Inr cid"
  then have "instant from_date \<le> instant d" and "py_getitem entry ''id'' = Inr cid"
    by simp_all
  with assms have "prefix (fst (fetch_crates_entry env from_date entry)) (sub_requests env cid)"
    by (rule entry_trace_prefix)
  then show "prefix (fst (fetch_crates_entry env from_date entry))
      (fst (crate env cid) @ attribute_requests env cid)"
    by (simp only: sub_requests_split)
next
  show "length (attribute_requests env cid) = 4"
    by (rule length_attribute_requests)
next
  assume a: "instant from_date \<le> instant d \<and> py_getitem entry ''id'' = Inr cid \<and>
          snd (fetch_crate_data env cid) = Inr (JObj kvs) \<and>
          snd (fetch_crate_owner_team env cid) = Inr v1 \<and>
          snd (fetch_crate_owner_user env cid) = Inr v2 \<and>
          snd (fetch_crate_version_downloads env cid) = Inr v3 \<and>
          snd (fetch_crate_versions env cid) = Inr v4"
  then have "instant from_date \<le> instant d" and "py_getitem entry ''id'' = Inr cid"
    and "snd (fetch_crate_data env cid) = Inr (JObj kvs)"
    and "snd (fetch_crate_owner_team env cid) = Inr v1"
    and "snd (fetch_crate_owner_user env cid) = Inr v2"
    and "snd (fetch_crate_version_downloads env cid) = Inr v3"
    and "snd (fetch_crate_versions env cid) = Inr v4"
    by simp_all
  with assms have "fetch_crates_entry env from_date entry =
      (sub_requests env cid, Inr (Some (with_extra_keys kvs v1 v2 v3 v4)))"
    by (rule entry_fetched)
  then show e: "fetch_crates_entry env from_date entry =
      (fst (crate env cid) @ attribute_requests env cid,
       Inr (Some (with_extra_keys kvs v1 v2 v3 v4)))"
    by (simp only: sub_requests_split)
  show "complete_crate (with_extra_keys kvs v1 v2 v3 v4)" by (rule complete_with_extra_keys)
  from e show "fetch_crates_page env from_date (entry # rest) =
      run_prepend (fst (crate env cid) @ attribute_requests env cid)
        [with_extra_keys kvs v1 v2 v3 v4] (fetch_crates_page env from_date rest)"
    by simp
next
  assume y: "snd (fetch_crates_entry env from_date entry) = Inr (Some c)"
  then show "complete_crate c" by (rule entry_yield_complete)
  from y obtain crate_id where "py_getitem entry ''id'' = Inr crate_id"
    and "fst (fetch_crates_entry env from_date entry) = sub_requests env crate_id"
    using entry_yield_trace by blast
  then show "\<exists>crate_id. py_getitem entry ''id'' = Inr crate_id \<and>
      fst (fetch_crates_entry env from_date entry) =
        fst (crate env crate_id) @ attribute_requests env crate_id"
    by (auto simp only: sub_requests_split)
qed

theorem watermark_filter_witness:
  "fetch_crates_entry (ex_env ex_registry) ex_from_date ex_entry_b = ([], Inr None) \<and>
   fetch_crates_entry (ex_env ex_registry) ex_from_date ex_entry_a =
     (fst (crate (ex_env ex_registry) (JStr ''a'')) @
        attribute_requests (ex_env ex_registry) (JStr ''a''), Inr (Some ex_record_a)) \<and>
   length (attribute_requests (ex_env ex_registry) (JStr ''a'')) = 4 \<and>
   complete_crate ex_record_a \<and>
   fetch_crates_page (ex_env ex_registry) ex_from_date [ex_entry_a, ex_entry_b] =
     \<lparr>trace = fst (crate (ex_env ex_registry) (JStr ''a'')) @
        attribute_requests (ex_env ex_registry) (JStr ''a''),
      yielded = [ex_record_a], outcome = Returned\<rparr> \<and>
   prefix (fst (fetch_crates_entry (ex_env ex_listing) ex_from_date ex_entry_a))
     (fst (crate (ex_env ex_listing) (JStr ''a'')) @
        attribute_requests (ex_env ex_listing) (JStr ''a'')) \<and>
   snd (fetch_crates_entry (ex_env ex_listing) ex_from_date ex_entry_a) \<noteq> Inr None"
proof -
  let ?env = "ex_env ex_registry"
  let ?kvs = "[(''id'', JStr ''a''), (''updated_at'', JStr ''2020-01-01'')]"
  have b: "py_getitem ex_entry_b ''updated_at'' = Inr (JStr ''2010-01-01'')"
    and a: "py_getitem ex_entry_a ''updated_at'' = Inr (JStr ''2020-01-01'')"
    and cid: "py_getitem ex_entry_a ''id'' = Inr (JStr ''a'')"
    by (simp_all add: ex_entry_a_def ex_entry_b_def)
  have before: "instant (Datetime 1262304000000000) < instant ex_from_date"
    and after: "instant ex_from_date \<le> instant (Datetime 1577836800000000)"
    by (simp_all add: ex_from_date_def)
  have served: "snd (fetch_crate_data ?env (JStr ''a'')) = Inr (JObj ?kvs)"
    "snd (fetch_crate_owner_team ?env (JStr ''a'')) = Inr (JObj [(''teams'', JArr [])])"
    "snd (fetch_crate_owner_user ?env (JStr ''a'')) = Inr (JObj [(''users'', JArr [])])"
    "snd (fetch_crate_version_downloads ?env (JStr ''a'')) =
       Inr (JObj [(''version_downloads'', JArr [])])"
    "snd (fetch_crate_versions ?env (JStr ''a'')) = Inr (JObj [(''versions'', JArr [])])"
    by (simp_all add: ex_registry_def ex_crate_a [unfolded ex_entry_a_def])
  note skipped = watermark_filter [OF b ex_dates_parsed(2), where registry1 = ex_registry
      and from_date = ex_from_date and rest = "[]"]
  note fetched = watermark_filter [OF a ex_dates_parsed(1), where registry1 = ex_registry
      and from_date = ex_from_date and rest = "[ex_entry_b]" and cid = "JStr ''a''"
      and kvs = ?kvs
      and ?v1.0 = "JObj [(''teams'', JArr [])]" and ?v2.0 = "JObj [(''users'', JArr [])]"
      and ?v3.0 = "JObj [(''version_downloads'', JArr [])]" and ?v4.0 = "JObj [(''versions'', JArr [])]"
      and c = ex_record_a]
  note failed = watermark_filter [OF a ex_dates_parsed(1), where registry1 = ex_listing
      and from_date = ex_from_date and cid = "JStr ''a''"]
  from skipped before
  have s: "fetch_crates_entry ?env ex_from_date ex_entry_b = ([], Inr None)"
    by blast
  from fetched after cid served
  have f: "fetch_crates_entry ?env ex_from_date ex_entry_a =
      (fst (crate ?env (JStr ''a'')) @ attribute_requests ?env (JStr ''a''),
       Inr (Some (with_extra_keys ?kvs (JObj [(''teams'', JArr [])]) (JObj [(''users'', JArr [])])
         (JObj [(''version_downloads'', JArr [])]) (JObj [(''versions'', JArr [])]))))"
    by blast
  then have f': "fetch_crates_entry ?env ex_from_date ex_entry_a =
      (fst (crate ?env (JStr ''a'')) @ attribute_requests ?env (JStr ''a''),
       Inr (Some ex_record_a))"
    by (simp only: ex_record_a_def ex_record_def)
  from fetched after cid have four: "length (attribute_requests ?env (JStr ''a'')) = 4"
    by blast
  from f' have "snd (fetch_crates_entry ?env ex_from_date ex_entry_a) = Inr (Some ex_record_a)"
    by simp
  with fetched have complete: "complete_crate ex_record_a"
    by blast
  from s f' have page: "fetch_crates_page ?env ex_from_date [ex_entry_a, ex_entry_b] =
     \<lparr>trace = fst (crate ?env (JStr ''a'')) @ attribute_requests ?env (JStr ''a''),
      yielded = [ex_record_a], outcome = Returned\<rparr>"
    by (simp add: run_prepend_def)
  from failed after cid
  have pre: "prefix (fst (fetch_crates_entry (ex_env ex_listing) ex_from_date ex_entry_a))
     (fst (crate (ex_env ex_listing) (JStr ''a'')) @
        attribute_requests (ex_env ex_listing) (JStr ''a''))"
    by blast
  from failed after
  have kept: "snd (fetch_crates_entry (ex_env ex_listing) ex_from_date ex_entry_a) \<noteq> Inr None"
    by blast
  from s f' four complete page pre kept show ?thesis by (intro conjI)
qed

subsection \<open>Failing sub-fetches\<close>

text \<open>
  C3. Let a fetch of crates handle its first \<open>n\<close> pages without an exception, and let an
  entry of the next page pass the watermark after the entries before it were handled. If
  one of the sub-fetches of that entry (detail, team owners, user owners, downloads,
  versions) is the first to raise, then handling the entry raises that same error, the
  generator of crates ends with that error, and it has yielded the records of the earlier
  pages and of the earlier entries of this page: none for the failing entry. Moreover every
  record the generator ever yields has all four extra keys.
\<close>

theorem sub_fetch_error_propagates:
  assumes "datetime_to_utc env from_date = Inr watermark"
    and "pages_handled n env watermark (crates_path env) (client_items_init 1) = Some (tr0, ys, st)"
    and "client_items_next env (crates_path env) st = (tr, Inr (Yield raw st'))"
    and "page_entries env raw = Inr (pre @ entry # post)"
    and "outcome (fetch_crates_page env watermark pre) = Returned"
    and "py_getitem entry ''updated_at'' = Inr u" and "str_to_datetime env u = Inr d"
    and "instant watermark \<le> instant d" and "py_getitem entry ''id'' = Inr cid"
    and "snd (fetch_crate_data env cid) = Inl e \<or>
         snd (fetch_crate_data env cid) = Inr c0 \<and> snd (fetch_crate_owner_team env cid) = Inl e \<or>
         snd (fetch_crate_data env cid) = Inr (JObj kvs) \<and>
         snd (fetch_crate_owner_team env cid) = Inr v1 \<and>
         (snd (fetch_crate_owner_user env cid) = Inl e \<or>
          snd (fetch_crate_owner_user env cid) = Inr v2 \<and>
          (snd (fetch_crate_version_downloads env cid) = Inl e \<or>
           snd (fetch_crate_version_downloads env cid) = Inr v3 \<and>
           snd (fetch_crate_versions env cid) = Inl e))"
  shows "snd (fetch_crates_entry env watermark entry) = Inl e \<and>
         outcome (fetch_crates (n + Suc fuel) env from_date) = Raised e \<and>
         yielded (fetch_crates (n + Suc fuel) env from_date) =
           ys @ yielded (fetch_crates_page env watermark pre) \<and>
         (\<forall>fuel' from_date'. \<forall>c \<in> set (yielded (fetch_crates fuel' env from_date')).
            complete_crate c)"
proof -
  let ?path = "crates_path env"
  have entry: "snd (fetch_crates_entry env watermark entry) = Inl e"
    using assms(6-10) by (rule entry_sub_fetch_raises)
  with assms(5) have page: "fetch_crates_page env watermark (pre @ entry # post) =
      \<lparr>trace = trace (fetch_crates_page env watermark pre) @
                fst (fetch_crates_entry env watermark entry),
       yielded = yielded (fetch_crates_page env watermark pre), outcome = Raised e\<rparr>"
    by (rule page_entry_raises)
  then have "outcome (fetch_crates_page env watermark (pre @ entry # post)) = Raised e"
    by simp
  with assms(3,4) have "fetch_crates_loop (Suc fuel) env watermark ?path st =
      run_prepend tr [] (fetch_crates_page env watermark (pre @ entry # post))"
    by (rule loop_step_raised)
  with page have here: "fetch_crates_loop (Suc fuel) env watermark ?path st =
      \<lparr>trace = tr @ trace (fetch_crates_page env watermark pre) @
                fst (fetch_crates_entry env watermark entry),
       yielded = yielded (fetch_crates_page env watermark pre), outcome = Raised e\<rparr>"
    by (simp add: run_prepend_def)
  from assms(2) have "fetch_crates_loop (n + Suc fuel) env watermark ?path (client_items_init 1) =
      run_prepend tr0 ys (fetch_crates_loop (Suc fuel) env watermark ?path st)"
    by (rule loop_after_handled)
  with assms(1) have run: "fetch_crates (n + Suc fuel) env from_date =
      run_prepend tr0 ys (fetch_crates_loop (Suc fuel) env watermark ?path st)"
    by (simp add: fetch_crates_def)
  have raised: "outcome (fetch_crates (n + Suc fuel) env from_date) = Raised e"
    unfolding run here by (simp add: run_prepend_def)
  have yields: "yielded (fetch_crates (n + Suc fuel) env from_date) =
      ys @ yielded (fetch_crates_page env watermark pre)"
    unfolding run here by (simp add: run_prepend_def)
  have complete: "complete_crate c"
    if "c \<in> set (yielded (fetch_crates fuel' env from_date'))" for fuel' from_date' c
  proof (cases "datetime_to_utc env from_date'")
    case (Inl err)
    with that show ?thesis by (simp add: fetch_crates_def)
  next
    case (Inr w)
    with that show ?thesis by (auto simp: fetch_crates_def dest: loop_yield_complete)
  qed
  from entry raised yields complete show ?thesis by blast
qed

theorem sub_fetch_error_propagates_witness:
  "snd (fetch_crates_entry (ex_env ex_registry_broken) ex_from_date ex_entry_c) =
     Inl (HTTPError ''404 Not Found'') \<and>
   outcome (fetch_crates (Suc (Suc 0)) (ex_env ex_registry_broken) (PyDatetime ex_from_date)) =
     Raised (HTTPError ''404 Not Found'') \<and>
   yielded (fetch_crates (Suc (Suc 0)) (ex_env ex_registry_broken) (PyDatetime ex_from_date)) =
     [ex_record_a]"
proof -
  let ?env = "ex_env ex_registry_broken"
  let ?st1 = "\<lparr>pc = AtYield, page = 1, parsed_crates = 2, total_crates = JInt 3\<rparr>"
  let ?st2 = "\<lparr>pc = AtYield, page = 2, parsed_crates = 3, total_crates = JInt 3\<rparr>"
  have watermark: "datetime_to_utc ?env (PyDatetime ex_from_date) = Inr ex_from_date"
    by (rule ex_default_datetime)
  have first: "client_items_next ?env ex_path (client_items_init 1) =
      ([page_request ex_path 1], Inr (Yield ex_page1 ?st1))"
    unfolding ex_registry_broken_def by (rule ex_first_page)
  have page1: "fetch_crates_page ?env ex_from_date [ex_entry_a, ex_entry_b] =
      \<lparr>trace = map fst (ex_crate ''a'' ex_detail_a), yielded = [ex_record_a], outcome = Returned\<rparr>"
    unfolding ex_registry_broken_def by (rule ex_page1_run)
  have handled: "pages_handled (Suc 0) ?env ex_from_date (crates_path ?env) (client_items_init 1) =
      Some (page_request ex_path 1 # map fst (ex_crate ''a'' ex_detail_a), [ex_record_a], ?st1)"
  proof -
    let ?r = "fetch_crates_page ?env ex_from_date [ex_entry_a, ex_entry_b]"
    have r1: "outcome ?r = Returned"
      unfolding page1 by simp
    have "pages_handled 0 ?env ex_from_date ex_path ?st1 = Some ([], [], ?st1)"
      by simp
    with first ex_page_entries(1) r1
    have h: "pages_handled (Suc 0) ?env ex_from_date ex_path (client_items_init 1) =
        Some ([page_request ex_path 1] @ trace ?r @ [], yielded ?r @ [], ?st1)"
      by (rule handled_one_more)
    have "Some ([page_request ex_path 1] @ trace ?r @ [], yielded ?r @ [], ?st1) =
        Some (page_request ex_path 1 # map fst (ex_crate ''a'' ex_detail_a), [ex_record_a], ?st1)"
      unfolding page1 by simp
    with h show ?thesis
      unfolding ex_crates_path by (rule trans)
  qed
  have second: "client_items_next ?env (crates_path ?env) ?st1 =
      ([page_request ex_path 2], Inr (Yield ex_page2 ?st2))"
    unfolding ex_registry_broken_def ex_crates_path by (rule ex_second_page)
  have entries: "page_entries ?env ex_page2 = Inr ([] @ ex_entry_c # [])"
    by (simp add: ex_page_entries)
  have returned: "outcome (fetch_crates_page ?env ex_from_date []) = Returned"
    by simp
  have u: "py_getitem ex_entry_c ''updated_at'' = Inr (JStr ''2021-06-01'')"
    and cid: "py_getitem ex_entry_c ''id'' = Inr (JStr ''c'')"
    by (simp_all add: ex_entry_c_def)
  have after: "instant ex_from_date \<le> instant (Datetime 1622505600000000)"
    by (simp add: ex_from_date_def)
  have fails: "snd (fetch_crate_data ?env (JStr ''c'')) = Inl (HTTPError ''404 Not Found'') \<or>
      snd (fetch_crate_data ?env (JStr ''c'')) = Inr JNull \<and>
      snd (fetch_crate_owner_team ?env (JStr ''c'')) = Inl (HTTPError ''404 Not Found'') \<or>
      snd (fetch_crate_data ?env (JStr ''c'')) =
        Inr (JObj [(''id'', JStr ''c''), (''updated_at'', JStr ''2021-06-01'')]) \<and>
      snd (fetch_crate_owner_team ?env (JStr ''c'')) = Inr (JObj [(''teams'', JArr [])]) \<and>
      (snd (fetch_crate_owner_user ?env (JStr ''c'')) = Inl (HTTPError ''404 Not Found'') \<or>
       snd (fetch_crate_owner_user ?env (JStr ''c'')) = Inr (JObj [(''users'', JArr [])]) \<and>
       (snd (fetch_crate_version_downloads ?env (JStr ''c'')) = Inl (HTTPError ''404 Not Found'') \<or>
        snd (fetch_crate_version_downloads ?env (JStr ''c'')) =
          Inr (JObj [(''version_downloads'', JArr [])]) \<and>
        snd (fetch_crate_versions ?env (JStr ''c'')) = Inl (HTTPError ''404 Not Found'')))"
    by (simp add: ex_crate_c_broken ex_entry_c_def)
  note propagated = sub_fetch_error_propagates
    [OF watermark handled second entries returned u ex_dates_parsed(3) after cid fails, of 0]
  from propagated have entry: "snd (fetch_crates_entry ?env ex_from_date ex_entry_c) =
      Inl (HTTPError ''404 Not Found'')"
    by (rule conjunct1)
  from propagated have raised:
    "outcome (fetch_crates (Suc (Suc 0)) ?env (PyDatetime ex_from_date)) =
      Raised (HTTPError ''404 Not Found'')"
    by simp
  from propagated have yields:
    "yielded (fetch_crates (Suc (Suc 0)) ?env (PyDatetime ex_from_date)) = [ex_record_a]"
    by simp
  from entry raised yields show ?thesis by (intro conjI)
qed

subsection \<open>An empty collection\<close>

text \<open>
  C4, as the code has it. If the first page reports \<^verbatim>\<open>meta.total = 0\<close>, the generator
  yields exactly that page, sends no request for page 2, and returns. An empty first page
  does not stop it: when the first page has no crates and reports a positive total, the
  second request the generator sends is the one for page 2.
\<close>

theorem first_page_total_zero:
  assumes "http_fetch env path (Some (page_payload 1)) = Inr raw"
    and "page_len env raw = Inr n"
    and "page_total env raw = Inr (JInt T)"
    and "2 \<le> fuel"
  shows "(T = 0 \<longrightarrow>
            client_fetch_items fuel env path (client_items_init 1) =
              \<lparr>trace = [page_request path 1], yielded = [raw], outcome = Returned\<rparr>) \<and>
         (n = 0 \<and> 0 < T \<longrightarrow>
            take 2 (trace (client_fetch_items fuel env path (client_items_init 1))) =
              [page_request path 1, page_request path 2])"
proof -
  from assms(4) obtain fuel' where fuel: "fuel = Suc (Suc fuel')"
    by (metis Suc_le_D numeral_2_eq_2 Suc_le_mono)
  have first: "client_items_next env path (client_items_init 1) =
      ([page_request path 1],
       Inr (Yield raw \<lparr>pc = AtYield, page = 1, parsed_crates = n, total_crates = JInt T\<rparr>))"
    using assms(1-3) by (rule items_next_first)
  from assms(2) have n0: "0 \<le> n" by (rule page_len_nonneg)
  have zero: "client_fetch_items fuel env path (client_items_init 1) =
      \<lparr>trace = [page_request path 1], yielded = [raw], outcome = Returned\<rparr>" if "T = 0"
    using that n0 by (simp add: fuel first items_next_stop run_prepend_def)
  have more: "take 2 (trace (client_fetch_items fuel env path (client_items_init 1))) =
      [page_request path 1, page_request path 2]" if "n = 0" and "0 < T"
  proof -
    let ?st = "\<lparr>pc = AtYield, page = 1, parsed_crates = n, total_crates = JInt T\<rparr>"
    from that have "client_items_next env path ?st = client_items_body env path (?st\<lparr>page := 2\<rparr>)"
      by (simp add: client_items_next_def Let_def)
    then have "fst (client_items_next env path ?st) = [page_request path 2]"
      by (simp add: fst_items_body)
    with trace_items_run [of fuel' env path ?st] obtain rest where
      "trace (client_fetch_items (Suc fuel') env path ?st) = page_request path 2 # rest"
      by auto
    then show ?thesis by (simp add: fuel first run_prepend_def)
  qed
  from zero more show ?thesis by blast
qed

theorem first_page_total_zero_witness:
  "client_fetch_items 2 (ex_env ex_void_registry) ex_path (client_items_init 1) =
     \<lparr>trace = [page_request ex_path 1], yielded = [ex_void], outcome = Returned\<rparr> \<and>
   take 2 (trace (client_fetch_items 2 (ex_env ex_sparse) ex_path (client_items_init 1))) =
     [page_request ex_path 1, page_request ex_path 2]"
  using first_page_total_zero [of "ex_env ex_void_registry" ex_path ex_void 0 0 2]
    first_page_total_zero [of "ex_env ex_sparse" ex_path ex_sparse1 0 1 2]
  by (simp add: ex_void_served ex_sparse_served ex_page_lens ex_page_totals)

text \<open>
  C4 as stated fails: with an empty first page that reports a total of 1, the generator
  requests page 2 and yields two pages.
\<close>

theorem empty_first_page_counterexample:
  "page_len (ex_env ex_sparse) ex_sparse1 = Inr 0 \<and>
   client_fetch_items 3 (ex_env ex_sparse) ex_path (client_items_init 1) =
     \<lparr>trace = [page_request ex_path 1, page_request ex_path 2],
      yielded = [ex_sparse1, ex_sparse2], outcome = Returned\<rparr> \<and>
   length (yielded (client_fetch_items 3 (ex_env ex_sparse) ex_path (client_items_init 1))) \<noteq> 1"
proof -
  have first: "client_items_next (ex_env ex_sparse) ex_path (client_items_init 1) =
      ([page_request ex_path 1],
       Inr (Yield ex_sparse1 \<lparr>pc = AtYield, page = 1, parsed_crates = 0, total_crates = JInt 1\<rparr>))"
    by (rule items_next_first) (simp_all add: ex_sparse_served ex_page_lens ex_page_totals)
  have second: "client_items_next (ex_env ex_sparse) ex_path
        \<lparr>pc = AtYield, page = 1, parsed_crates = 0, total_crates = JInt 1\<rparr> =
      ([page_request ex_path 2],
       Inr (Yield ex_sparse2 \<lparr>pc = AtYield, page = 2, parsed_crates = 1, total_crates = JInt 1\<rparr>))"
    using items_next_more [of 0 1 "ex_env ex_sparse" ex_path 1 ex_sparse2 1]
    by (simp add: ex_sparse_served ex_page_lens)
  have third: "client_items_next (ex_env ex_sparse) ex_path
        \<lparr>pc = AtYield, page = 2, parsed_crates = 1, total_crates = JInt 1\<rparr> = ([], Inr Stop)"
    by (rule items_next_stop) simp
  have "client_fetch_items 3 (ex_env ex_sparse) ex_path (client_items_init 1) =
     \<lparr>trace = [page_request ex_path 1, page_request ex_path 2],
      yielded = [ex_sparse1, ex_sparse2], outcome = Returned\<rparr>"
    by (simp add: numeral_3_eq_3 first second third run_prepend_def)
  then show ?thesis by (simp add: ex_page_lens)
qed

subsection \<open>What the watermark bounds\<close>

text \<open>
  C5, as the code has it. Every record that a fetch of crates yields was built for an entry
  of a listing page the registry served, and the \<^verbatim>\<open>updated_at\<close> of that entry, as the
  listing reports it, is at or after the watermark.
\<close>

theorem emitted_entries_pass_watermark:
  assumes "datetime_to_utc env from_date = Inr watermark"
  shows "\<forall>c \<in> set (yielded (fetch_crates fuel env from_date)).
           \<exists>p raw entries entry u d.
             http_fetch env (crates_path env) (Some (page_payload p)) = Inr raw \<and>
             page_entries env raw = Inr entries \<and> entry \<in> set entries \<and>
             snd (fetch_crates_entry env watermark entry) = Inr (Some c) \<and>
             py_getitem entry ''updated_at'' = Inr u \<and> str_to_datetime env u = Inr d \<and>
             instant watermark \<le> instant d"
proof
  fix c assume "c \<in> set (yielded (fetch_crates fuel env from_date))"
  with assms have
    "c \<in> set (yielded (fetch_crates_loop fuel env watermark (crates_path env) (client_items_init 1)))"
    by (simp add: fetch_crates_def)
  then obtain p raw entries entry where
    listed: "http_fetch env (crates_path env) (Some (page_payload p)) = Inr raw"
      "page_entries env raw = Inr entries" "entry \<in> set entries"
    and made: "snd (fetch_crates_entry env watermark entry) = Inr (Some c)"
    using loop_yield_origin by blast
  from made obtain u d where "py_getitem entry ''updated_at'' = Inr u"
    and "str_to_datetime env u = Inr d" and "instant watermark \<le> instant d"
    using entry_yield_inversion by blast
  with listed made show "\<exists>p raw entries entry u d.
             http_fetch env (crates_path env) (Some (page_payload p)) = Inr raw \<and>
             page_entries env raw = Inr entries \<and> entry \<in> set entries \<and>
             snd (fetch_crates_entry env watermark entry) = Inr (Some c) \<and>
             py_getitem entry ''updated_at'' = Inr u \<and> str_to_datetime env u = Inr d \<and>
             instant watermark \<le> instant d"
    by blast
qed

theorem emitted_entries_pass_watermark_witness:
  "\<exists>p raw entries entry u d.
     http_fetch (ex_env ex_registry) (crates_path (ex_env ex_registry)) (Some (page_payload p)) =
       Inr raw \<and>
     page_entries (ex_env ex_registry) raw = Inr entries \<and> entry \<in> set entries \<and>
     snd (fetch_crates_entry (ex_env ex_registry) ex_from_date entry) = Inr (Some ex_record_a) \<and>
     py_getitem entry ''updated_at'' = Inr u \<and> str_to_datetime (ex_env ex_registry) u = Inr d \<and>
     instant ex_from_date \<le> instant d"
proof -
  have "yielded (fetch_crates 3 (ex_env ex_registry) (PyDatetime ex_from_date)) =
      [ex_record_a, ex_record_c]"
    unfolding ex_registry_def ex_record_c_def
    by (subst ex_crates_run) (simp_all add: ex_loads ex_entry_c_def)
  then have "ex_record_a \<in> set (yielded (fetch_crates 3 (ex_env ex_registry) (PyDatetime ex_from_date)))"
    by simp
  with emitted_entries_pass_watermark
    [of "ex_env ex_registry" "PyDatetime ex_from_date" ex_from_date 3]
  show ?thesis by (simp add: ex_default_datetime)
qed

text \<open>
  C5 as stated fails: the \<^verbatim>\<open>updated_at\<close> field of the yielded record comes from the
  detail of the crate, which the code never compares with the watermark. Here the listing
  reports an update of crate \<open>c\<close> after the watermark, and its detail one before it.
\<close>

theorem stale_detail_counterexample:
  "yielded (fetch_crates 3 (ex_env ex_registry_stale) (PyDatetime ex_from_date)) =
     [ex_record_a, ex_record_c_stale] \<and>
   py_getitem ex_record_c_stale ''updated_at'' = Inr (JStr ''2010-01-01'') \<and>
   str_to_datetime (ex_env ex_registry_stale) (JStr ''2010-01-01'') =
     Inr (Datetime 1262304000000000) \<and>
   instant (Datetime 1262304000000000) < instant ex_from_date"
proof -
  have "yielded (fetch_crates 3 (ex_env ex_registry_stale) (PyDatetime ex_from_date)) =
      [ex_record_a, ex_record_c_stale]"
    unfolding ex_registry_stale_def ex_record_c_stale_def
    by (subst ex_crates_run) (simp_all add: ex_loads ex_stale_c_def)
  then show ?thesis
    by (simp add: ex_record_c_stale_def ex_record_def with_extra_keys_def ex_dates_parsed
        ex_from_date_def)
qed

subsection \<open>The category of an item\<close>

text \<open>
  C6. For every item mapping, \<^verbatim>\<open>metadata_category\<close> returns \<^verbatim>\<open>summary\<close> exactly when
  the mapping has a key \<^verbatim>\<open>num_downloads\<close>, and \<^verbatim>\<open>crates\<close> otherwise.
\<close>

theorem metadata_category_summary_iff:
  "(metadata_category item = ''summary'' \<longleftrightarrow> map_of item ''num_downloads'' \<noteq> None) \<and>
   (map_of item ''num_downloads'' = None \<longleftrightarrow> metadata_category item = ''crates'')"
  by (simp add: metadata_category_def CATEGORY_SUMMARY_def CATEGORY_CRATES_def
      map_of_eq_None_iff)

subsection \<open>Identifier and update time of an item\<close>

text \<open>
  C7, as the code has it. For an item without the key \<^verbatim>\<open>num_downloads\<close>,
  \<^verbatim>\<open>metadata_id\<close> is the string form of its \<^verbatim>\<open>id\<close>, and \<^verbatim>\<open>metadata_updated_on\<close> is
  the timestamp, a float, of its parsed \<^verbatim>\<open>updated_at\<close>. For an item with that key,
  \<^verbatim>\<open>metadata_id\<close> is the string form of the timestamp of its parsed \<^verbatim>\<open>fetched_on\<close>, and
  \<^verbatim>\<open>metadata_updated_on\<close> is that timestamp as a float.
\<close>

theorem metadata_id_and_updated_on:
  "(map_of item ''num_downloads'' = None \<and> map_of item ''id'' = Some v \<longrightarrow>
      metadata_id env item = Inr (PyStr (py_str env v))) \<and>
   (map_of item ''num_downloads'' = None \<and> map_of item ''updated_at'' = Some ts \<and>
    str_to_datetime env ts = Inr d \<longrightarrow>
      metadata_updated_on env item = Inr (PyFloat (timestamp env d))) \<and>
   (map_of item ''num_downloads'' = Some n \<and> map_of item ''fetched_on'' = Some ts \<and>
    str_to_datetime env ts = Inr d \<longrightarrow>
      metadata_id env item = Inr (PyStr (str_float env (timestamp env d))) \<and>
      metadata_updated_on env item = Inr (PyFloat (timestamp env d)))"
  by (auto simp: metadata_id_def metadata_updated_on_def category_crates category_summary
      categories_differ)

theorem metadata_id_and_updated_on_witness:
  "metadata_id (ex_env []) ex_crate_item = Inr (PyStr ''42'') \<and>
   metadata_updated_on (ex_env []) ex_crate_item = Inr (PyFloat 1622505600) \<and>
   metadata_id (ex_env []) ex_summary_item = Inr (PyStr ''1577836800.0'') \<and>
   metadata_updated_on (ex_env []) ex_summary_item = Inr (PyFloat 1577836800)"
  using metadata_id_and_updated_on [of ex_crate_item "JInt 42" "ex_env []"
      "JStr ''2021-06-01T00:00:00+00:00''" "Datetime 1622505600000000"]
    metadata_id_and_updated_on [of ex_summary_item _ "ex_env []"
      "JStr ''2020-01-01T00:00:00+00:00''" "Datetime 1577836800000000" "JInt 5"]
  by (simp add: ex_crate_item_def ex_summary_item_def ex_dates_parsed)
     (simp add: ex_env_def)

text \<open>
  C7 as stated fails: for a summary item \<^verbatim>\<open>metadata_id\<close> returns a string, not the
  number.
\<close>

theorem metadata_id_summary_counterexample:
  "metadata_category ex_summary_item = ''summary'' \<and>
   str_to_datetime (ex_env []) (JStr ''2020-01-01T00:00:00+00:00'') = Inr (Datetime 1577836800000000) \<and>
   timestamp (ex_env []) (Datetime 1577836800000000) = 1577836800 \<and>
   metadata_id (ex_env []) ex_summary_item = Inr (PyStr ''1577836800.0'') \<and>
   metadata_id (ex_env []) ex_summary_item \<noteq> Inr (PyFloat 1577836800)"
proof -
  have "metadata_id (ex_env []) ex_summary_item =
      Inr (PyStr (str_float (ex_env []) (timestamp (ex_env []) (Datetime 1577836800000000))))"
    by (simp add: metadata_id_def category_summary categories_differ ex_summary_item_def
        ex_dates_parsed)
  moreover have "timestamp (ex_env []) (Datetime 1577836800000000) = 1577836800"
    by (simp add: ex_env_def)
  moreover have "str_float (ex_env []) 1577836800 = ''1577836800.0''"
    by (simp add: ex_env_def)
  moreover have "metadata_category ex_summary_item = ''summary''"
    by (simp add: metadata_category_def ex_summary_item_def CATEGORY_SUMMARY_def)
  ultimately show ?thesis by (simp add: ex_dates_parsed)
qed

subsection \<open>The summary\<close>

text \<open>
  C8. When the summary is served and decodes to a mapping, the summary generator sends one
  request and yields exactly one record: the decoded mapping with \<^verbatim>\<open>fetched_on\<close> set to
  the string form of the time read. Two runs against the same response, at any two times,
  yield records that agree on every key other than \<^verbatim>\<open>fetched_on\<close>.
\<close>

theorem summary_once:
  assumes "http_fetch env (urijoin env [JStr CRATES_API_URL, JStr CATEGORY_SUMMARY]) None = Inr raw"
    and "json_loads env raw = Inr (JObj kvs)"
  shows "fetch_summary env now =
           \<lparr>trace = [(urijoin env [JStr CRATES_API_URL, JStr CATEGORY_SUMMARY], None)],
            yielded = [JObj (AList.update ''fetched_on'' (JStr (str_datetime env now)) kvs)],
            outcome = Returned\<rparr> \<and>
         py_getitem (JObj (AList.update ''fetched_on'' (JStr (str_datetime env now)) kvs)) ''fetched_on'' =
           Inr (JStr (str_datetime env now)) \<and>
         (\<forall>k. k \<noteq> ''fetched_on'' \<longrightarrow>
            py_getitem (JObj (AList.update ''fetched_on'' (JStr (str_datetime env now)) kvs)) k =
              py_getitem (JObj kvs) k) \<and>
         (\<forall>k. k \<noteq> ''fetched_on'' \<longrightarrow>
            py_getitem (hd (yielded (fetch_summary env now))) k =
              py_getitem (hd (yielded (fetch_summary env now'))) k)"
proof -
  have run: "fetch_summary env t =
      \<lparr>trace = [(urijoin env [JStr CRATES_API_URL, JStr CATEGORY_SUMMARY], None)],
       yielded = [JObj (AList.update ''fetched_on'' (JStr (str_datetime env t)) kvs)],
       outcome = Returned\<rparr>" for t
    using assms by (simp add: fetch_summary_def summary_def client_fetch_def io_lift_def)
  show ?thesis
    by (simp add: run update_other_key update_conv')
qed

theorem summary_once_witness:
  "fetch_summary (ex_env ex_summary_registry) (Datetime 1577836800000000) =
     \<lparr>trace = [(''https://crates.io/api/v1/summary'', None)],
      yielded = [JObj [(''num_downloads'', JInt 5), (''fetched_on'', JStr ''2020-01-01 00:00:00+00:00'')]],
      outcome = Returned\<rparr> \<and>
   py_getitem (hd (yielded (fetch_summary (ex_env ex_summary_registry) (Datetime 1577836800000000))))
       ''num_downloads'' =
     py_getitem (hd (yielded (fetch_summary (ex_env ex_summary_registry) (Datetime 1577836801000000))))
       ''num_downloads''"
proof -
  let ?env = "ex_env ex_summary_registry"
  have url: "urijoin ?env [JStr CRATES_API_URL, JStr CATEGORY_SUMMARY] =
      ''https://crates.io/api/v1/summary''"
    by (simp add: ex_env_def ex_urijoin_def ex_strip_def CRATES_API_URL_def CATEGORY_SUMMARY_def)
  have served: "http_fetch ?env (urijoin ?env [JStr CRATES_API_URL, JStr CATEGORY_SUMMARY]) None =
      Inr ex_summary_doc"
    unfolding url by (simp add: ex_http_fetch ex_summary_registry_def)
  have decoded: "json_loads ?env ex_summary_doc = Inr (JObj [(''num_downloads'', JInt 5)])"
    by (rule ex_loads)
  have now: "str_datetime ?env (Datetime 1577836800000000) = ''2020-01-01 00:00:00+00:00''"
    by (simp add: ex_env_def)
  note once = summary_once [OF served decoded, of "Datetime 1577836800000000" "Datetime 1577836801000000"]
  from once have run: "fetch_summary ?env (Datetime 1577836800000000) =
     \<lparr>trace = [(''https://crates.io/api/v1/summary'', None)],
      yielded = [JObj [(''num_downloads'', JInt 5), (''fetched_on'', JStr ''2020-01-01 00:00:00+00:00'')]],
      outcome = Returned\<rparr>"
    by (simp add: url now)
  from once have "\<forall>k. k \<noteq> ''fetched_on'' \<longrightarrow>
      py_getitem (hd (yielded (fetch_summary ?env (Datetime 1577836800000000)))) k =
      py_getitem (hd (yielded (fetch_summary ?env (Datetime 1577836801000000)))) k"
    by (elim conjE)
  then have "py_getitem (hd (yielded (fetch_summary ?env (Datetime 1577836800000000)))) ''num_downloads'' =
      py_getitem (hd (yielded (fetch_summary ?env (Datetime 1577836801000000)))) ''num_downloads''"
    by (rule allE [where x = "''num_downloads''"]) simp
  with run show ?thesis by (rule conjI)
qed

subsection \<open>Order of the records\<close>

text \<open>
  C9. What a fetch of crates yields follows the listing: entry by entry within a page,
  page after page in the order in which the page generator yields them, leaving out the
  entries before the watermark. In general it is a prefix of that sequence, and all of it
  when the fetch returns. The same holds for the entries of a single page.
\<close>

theorem records_follow_listing_order:
  assumes "datetime_to_utc env from_date = Inr watermark"
  shows "prefix (map (\<lambda>c. [c]) (yielded (fetch_crates fuel env from_date)))
           (concat (map (page_records env watermark) (yielded (crates fuel env 1)))) \<and>
         (outcome (fetch_crates fuel env from_date) = Returned \<longrightarrow>
            outcome (crates fuel env 1) = Returned \<and>
            map (\<lambda>c. [c]) (yielded (fetch_crates fuel env from_date)) =
              concat (map (page_records env watermark) (yielded (crates fuel env 1)))) \<and>
         (\<forall>entries.
            prefix (map (\<lambda>c. [c]) (yielded (fetch_crates_page env watermark entries)))
              (map (entry_record env watermark)
                (filter (\<lambda>e. \<not> before_watermark env watermark e) entries)) \<and>
            (outcome (fetch_crates_page env watermark entries) = Returned \<longrightarrow>
               map (\<lambda>c. [c]) (yielded (fetch_crates_page env watermark entries)) =
                 map (entry_record env watermark)
                   (filter (\<lambda>e. \<not> before_watermark env watermark e) entries)))"
proof -
  from assms have "fetch_crates fuel env from_date =
      fetch_crates_loop fuel env watermark (crates_path env) (client_items_init 1)"
    by (simp add: fetch_crates_def)
  moreover have "crates fuel env 1 =
      client_fetch_items fuel env (crates_path env) (client_items_init 1)"
    by (simp add: crates_def)
  ultimately show ?thesis
    using loop_order [of fuel env watermark "crates_path env" "client_items_init 1"]
      page_order [of env watermark]
    by simp
qed

theorem records_follow_listing_order_witness:
  "yielded (crates 3 (ex_env ex_registry) 1) = [ex_page1, ex_page2] \<and>
   yielded (fetch_crates 3 (ex_env ex_registry) (PyDatetime ex_from_date)) =
     [ex_record_a, ex_record_c] \<and>
   concat (map (page_records (ex_env ex_registry) ex_from_date)
       (yielded (crates 3 (ex_env ex_registry) 1))) = [[ex_record_a], [ex_record_c]]"
proof -
  let ?env = "ex_env ex_registry"
  have run: "fetch_crates 3 ?env (PyDatetime ex_from_date) =
      \<lparr>trace = page_request ex_path 1 # map fst (ex_crate ''a'' ex_detail_a) @
               page_request ex_path 2 # map fst (ex_crate ''c'' ex_detail_c),
       yielded = [ex_record_a, ex_record_c], outcome = Returned\<rparr>"
    unfolding ex_registry_def ex_record_c_def
    by (subst ex_crates_run) (simp_all add: ex_loads ex_entry_c_def)
  have pages: "crates 3 ?env 1 =
      \<lparr>trace = [page_request ex_path 1, page_request ex_path 2],
       yielded = [ex_page1, ex_page2], outcome = Returned\<rparr>"
    by (simp add: crates_def ex_crates_path ex_registry_def ex_pages_run)
  from records_follow_listing_order
    [of ?env "PyDatetime ex_from_date" ex_from_date 3]
  have "map (\<lambda>c. [c]) (yielded (fetch_crates 3 ?env (PyDatetime ex_from_date))) =
      concat (map (page_records ?env ex_from_date) (yielded (crates 3 ?env 1)))"
    by (simp add: ex_default_datetime run)
  with run pages show ?thesis by simp
qed

subsection \<open>The default watermark\<close>

text \<open>
  C10. \<^verbatim>\<open>Crates.fetch\<close> with a falsy \<^verbatim>\<open>from_date\<close> is \<^verbatim>\<open>Crates.fetch\<close> with
  \<^verbatim>\<open>DEFAULT_DATETIME\<close>: that value is normalised to UTC and handed on as the watermark.
\<close>

theorem fetch_falsy_from_date:
  assumes "\<not> pyval_truthy from_date"
  shows "fetch env super_fetch category from_date =
           fetch env super_fetch category (PyDatetime (DEFAULT_DATETIME env)) \<and>
         fetch env super_fetch category from_date =
           (case datetime_to_utc env (PyDatetime (DEFAULT_DATETIME env)) of
              Inl e \<Rightarrow> Inl e
            | Inr watermark \<Rightarrow> Inr (super_fetch category watermark))"
  using assms by (simp add: fetch_def)

theorem fetch_falsy_from_date_witness:
  "fetch (ex_env ex_registry) (fetch_items 3 (ex_env ex_registry) (Datetime 0)) ''crates'' PyNone =
     fetch (ex_env ex_registry) (fetch_items 3 (ex_env ex_registry) (Datetime 0)) ''crates''
       (PyDatetime (Datetime 0)) \<and>
   fetch (ex_env ex_registry) (fetch_items 3 (ex_env ex_registry) (Datetime 0)) ''crates'' PyNone =
     Inr (fetch_items 3 (ex_env ex_registry) (Datetime 0) ''crates'' (Datetime 0))"
  using fetch_falsy_from_date [of PyNone "ex_env ex_registry"
      "fetch_items 3 (ex_env ex_registry) (Datetime 0)" "''crates''"]
  by (simp add: ex_default_datetime fetch_def)

end
